theory Spec2Isabelle
  imports Main "HOL-Library.Word" "HOL-Library.Sublist"
begin

unbundle bit_operations_syntax

section \<open>Sandbox creation of cri-containerd (package server, RunPodSandbox)\<close>

text \<open>
  The development embeds the Go functions \<open>RunPodSandbox\<close>,
  \<open>generateSandboxContainerSpec\<close>, \<open>setupSandboxFiles\<close>, \<open>parseDNSOptions\<close>,
  \<open>unmountSandboxFiles\<close> and \<open>toCNIPortMappings\<close>. Go strings are byte strings
  (\<open>string\<close>), \<open>int32\<close> is \<open>32 word\<close> read with \<open>sint\<close>, an \<open>error\<close> result is a sum
  or an option, and the collaborators the functions call (name index, sandbox store,
  network namespaces, CNI plugin, containerd client, OS layer) act on an explicit
  \<open>world\<close> that is passed through.
\<close>

subsection \<open>Go library functions on strings\<close>

text \<open>\<open>strings.Join(elems, sep)\<close>.\<close>

fun Join :: "string list \<Rightarrow> string \<Rightarrow> string" where
  "Join [] sep = []"
| "Join [x] sep = x"
| "Join (x # y # ys) sep = x @ sep @ Join (y # ys) sep"

text \<open>\<open>strings.ToLower\<close> on the ASCII letters, byte by byte.\<close>

definition lower_char :: "char \<Rightarrow> char" where
  "lower_char ch =
     (case map_of (zip ''ABCDEFGHIJKLMNOPQRSTUVWXYZ'' ''abcdefghijklmnopqrstuvwxyz'') ch of
        Some l \<Rightarrow> l
      | None \<Rightarrow> ch)"

definition ToLower :: "string \<Rightarrow> string" where
  "ToLower s = map lower_char s"

text \<open>\<open>fmt.Sprintf("%d", n)\<close> for a non-negative number.\<close>

function digits_acc :: "nat \<Rightarrow> string \<Rightarrow> string" where
  "digits_acc n acc =
     (let acc' = (''0123456789'' ! (n mod 10)) # acc
      in if n div 10 = 0 then acc' else digits_acc (n div 10) acc')"
  by pat_completeness auto
termination
  by (relation "measure fst") auto

definition Sprintf_d :: "nat \<Rightarrow> string" where
  "Sprintf_d n = digits_acc n []"

subsection \<open>Port mappings: CRI to CNI\<close>

text \<open>
  \<open>runtime.Protocol\<close> is the protobuf enum with the values TCP and UDP; its
  \<open>String()\<close> gives the name of the value.
\<close>

datatype Protocol = TCP | UDP

fun Protocol_String :: "Protocol \<Rightarrow> string" where
  "Protocol_String TCP = ''TCP''"
| "Protocol_String UDP = ''UDP''"

record PortMapping =
  Protocol :: Protocol
  ContainerPort :: "32 word"
  HostPort :: "32 word"
  HostIp :: string

record CNIPortMapping =
  cniHostPort :: "32 word"
  cniContainerPort :: "32 word"
  cniProtocol :: string
  cniHostIP :: string

text \<open>
  The loop of \<open>toCNIPortMappings\<close>: \<open>acc\<close> is the slice \<open>portMappings\<close> built so far;
  a mapping with \<open>HostPort <= 0\<close> (signed) is skipped by \<open>continue\<close>.
\<close>

fun toCNIPortMappings_loop :: "CNIPortMapping list \<Rightarrow> PortMapping list \<Rightarrow> CNIPortMapping list" where
  "toCNIPortMappings_loop acc [] = acc"
| "toCNIPortMappings_loop acc (mapping # rest) =
     (if sint (HostPort mapping) \<le> 0 then toCNIPortMappings_loop acc rest
      else toCNIPortMappings_loop
             (acc @ [\<lparr>cniHostPort = HostPort mapping,
                      cniContainerPort = ContainerPort mapping,
                      cniProtocol = ToLower (Protocol_String (Protocol mapping)),
                      cniHostIP = HostIp mapping\<rparr>]) rest)"

definition toCNIPortMappings :: "PortMapping list \<Rightarrow> CNIPortMapping list" where
  "toCNIPortMappings criPortMappings = toCNIPortMappings_loop [] criPortMappings"

text \<open>
  What the specification says of the translation, for comparison with the loop: the
  mappings with a positive host port, each with its ports unchanged and its protocol
  name in lower case.
\<close>

definition forwarded :: "PortMapping \<Rightarrow> CNIPortMapping" where
  "forwarded m = \<lparr>cniHostPort = HostPort m, cniContainerPort = ContainerPort m,
                  cniProtocol = ToLower (Protocol_String (Protocol m)), cniHostIP = HostIp m\<rparr>"

definition spec_port_translation :: "PortMapping list \<Rightarrow> CNIPortMapping list" where
  "spec_port_translation ms = map forwarded (filter (\<lambda>m. 0 < sint (HostPort m)) ms)"

subsection \<open>DNS options\<close>

text \<open>The constant \<open>maxDNSSearches\<close>; the error message of the source names its value.\<close>

definition maxDNSSearches :: nat where
  "maxDNSSearches = 6"

datatype dns_error = DNSSearchesTooMany

definition parseDNSOptions :: "string list \<Rightarrow> string list \<Rightarrow> string list \<Rightarrow> dns_error + string" where
  "parseDNSOptions servers searches options =
     (if length searches > maxDNSSearches then Inl DNSSearchesTooMany
      else
        let resolvContent = '''';
            resolvContent = (if length searches > 0
               then resolvContent @ ''search '' @ Join searches '' '' @ [CHR 0x0A]
               else resolvContent);
            resolvContent = (if length servers > 0
               then resolvContent @ ''nameserver '' @ Join servers ([CHR 0x0A] @ ''nameserver '') @ [CHR 0x0A]
               else resolvContent);
            resolvContent = (if length options > 0
               then resolvContent @ ''options '' @ Join options '' '' @ [CHR 0x0A]
               else resolvContent)
        in Inr resolvContent)"

subsection \<open>The pod sandbox configuration (CRI)\<close>

text \<open>
  The messages of \<open>runtime.PodSandboxConfig\<close> that the functions read. The generated
  getters return the zero value on a nil message, so a missing \<open>Linux\<close>,
  \<open>SecurityContext\<close> or \<open>NamespaceOptions\<close> message behaves as the record of zero
  values; \<open>DnsConfig\<close> and \<open>RunAsUser\<close> are tested against nil by the source and are
  options here.
\<close>

record PodSandboxMetadata =
  mdName :: string
  mdUid :: string
  mdNamespace :: string
  mdAttempt :: "32 word"

record DNSConfig =
  Servers :: "string list"
  Searches :: "string list"
  Options :: "string list"

record NamespaceOption =
  HostNetwork :: bool
  HostPid :: bool
  HostIpc :: bool

record SELinuxOption =
  seUser :: string
  seRole :: string
  seType :: string
  seLevel :: string

record LinuxSandboxSecurityContext =
  NamespaceOptions :: NamespaceOption
  SelinuxOptions :: "SELinuxOption option"
  RunAsUser :: "64 word option"
  SupplementalGroups :: "64 word list"
  Privileged :: bool
  SeccompProfilePath :: string

record LinuxPodSandboxConfig =
  CgroupParent :: string
  SecurityContext :: LinuxSandboxSecurityContext
  Sysctls :: "string \<rightharpoonup> string"

record PodSandboxConfig =
  Metadata :: PodSandboxMetadata
  Hostname :: string
  DnsConfig :: "DNSConfig option"
  PortMappings :: "PortMapping list"
  Labels :: "string \<rightharpoonup> string"
  Linux :: LinuxPodSandboxConfig

subsection \<open>The runtime specification (OCI) and its generator\<close>

datatype LinuxNamespaceType =
  PIDNamespace | NetworkNamespace | MountNamespace | IPCNamespace | UTSNamespace
  | UserNamespace | CgroupNamespace

record LinuxNamespace =
  lnsType :: LinuxNamespaceType
  lnsPath :: string

text \<open>The fields of \<open>runtimespec.Spec\<close> that the generator calls of the source set.\<close>

record Spec =
  ProcessEnv :: "string list"
  ProcessCwd :: string
  ProcessArgs :: "string list"
  ProcessSelinuxLabel :: string
  ProcessAdditionalGids :: "32 word list"
  ProcessOOMScoreAdj :: "int option"
  RootPath :: string
  RootReadonly :: bool
  SpecHostname :: string
  LinuxCgroupsPath :: string
  LinuxNamespaces :: "LinuxNamespace list"
  LinuxMountLabel :: string
  LinuxSysctl :: "string \<rightharpoonup> string"
  LinuxCPUShares :: "64 word option"

text \<open>
  The methods of \<open>generate.Generator\<close> (runtime-tools) on the namespace list:
  \<open>RemoveLinuxNamespace\<close> deletes the first entry of the type,
  \<open>AddOrReplaceLinuxNamespace\<close> overwrites the first entry of the type or appends one.
\<close>

fun RemoveLinuxNamespace :: "LinuxNamespaceType \<Rightarrow> LinuxNamespace list \<Rightarrow> LinuxNamespace list" where
  "RemoveLinuxNamespace t [] = []"
| "RemoveLinuxNamespace t (ns # nss) =
     (if lnsType ns = t then nss else ns # RemoveLinuxNamespace t nss)"

fun AddOrReplaceLinuxNamespace ::
  "LinuxNamespaceType \<Rightarrow> string \<Rightarrow> LinuxNamespace list \<Rightarrow> LinuxNamespace list" where
  "AddOrReplaceLinuxNamespace t path [] = [\<lparr>lnsType = t, lnsPath = path\<rparr>]"
| "AddOrReplaceLinuxNamespace t path (ns # nss) =
     (if lnsType ns = t then \<lparr>lnsType = t, lnsPath = path\<rparr> # nss
      else ns # AddOrReplaceLinuxNamespace t path nss)"

text \<open>\<open>AddProcessAdditionalGid\<close> appends a group id that is not yet in the list.\<close>

definition AddProcessAdditionalGid :: "32 word \<Rightarrow> 32 word list \<Rightarrow> 32 word list" where
  "AddProcessAdditionalGid gid gids = (if gid \<in> set gids then gids else gids @ [gid])"

record ImageConfig =
  imgEnv :: "string list"
  imgWorkingDir :: string
  imgEntrypoint :: "string list"
  imgCmd :: "string list"

record ImageInfo =
  imgInfoImage :: string
  imgInfoConfig :: ImageConfig

subsection \<open>Errors\<close>

text \<open>
  One constructor for each place where the source returns an error; an error that the
  source wraps keeps its cause. The OS layer's errors are told apart only by
  \<open>os.IsNotExist\<close>.
\<close>

datatype os_error = NotExist | OtherOSError

datatype spec_error =
  DefaultSpecFailed | ImageEnvsFailed | EmptyEntrypoint | SelinuxOptsFailed

datatype files_error =
  HostsFileFailed | ParseDNSFailed dns_error | CopyResolvFailed | WriteResolvFailed
  | HostShmUnavailable | CreateShmFailed | MountShmFailed

datatype error =
  ReserveNameFailed | GetSandboxImageFailed | CreateNetNSFailed | SetupNetworkFailed
  | GenerateSpecFailed spec_error | SeccompSpecOptsFailed | CreateContainerFailed
  | CreateRootDirFailed | SetupFilesFailed files_error | CreateTaskFailed
  | StartTaskFailed | AddToStoreFailed

text \<open>
  Modelled from the spec: the error kinds of its section 7 (the source has plain
  \<open>fmt.Errorf\<close> values and no kinds). \<open>InvalidConfig\<close> is "bad entrypoint, DNS search
  overflow, malformed seccomp/SELinux options"; the failures of the OS layer are
  \<open>FilesystemError\<close>, those of the containerd client \<open>ExecutionEngineError\<close>.
\<close>

datatype error_kind =
  Conflict | ImageError | NamespaceCreateError | NetworkSetupError | InvalidConfig
  | FilesystemError | ExecutionEngineError | DuplicateID

fun spec_error_kind :: "spec_error \<Rightarrow> error_kind" where
  "spec_error_kind DefaultSpecFailed = ExecutionEngineError"
| "spec_error_kind ImageEnvsFailed = InvalidConfig"
| "spec_error_kind EmptyEntrypoint = InvalidConfig"
| "spec_error_kind SelinuxOptsFailed = InvalidConfig"

fun files_error_kind :: "files_error \<Rightarrow> error_kind" where
  "files_error_kind (ParseDNSFailed e) = InvalidConfig"
| "files_error_kind e = FilesystemError"

fun kind_of :: "error \<Rightarrow> error_kind" where
  "kind_of ReserveNameFailed = Conflict"
| "kind_of GetSandboxImageFailed = ImageError"
| "kind_of CreateNetNSFailed = NamespaceCreateError"
| "kind_of SetupNetworkFailed = NetworkSetupError"
| "kind_of (GenerateSpecFailed e) = spec_error_kind e"
| "kind_of SeccompSpecOptsFailed = InvalidConfig"
| "kind_of CreateContainerFailed = ExecutionEngineError"
| "kind_of CreateRootDirFailed = FilesystemError"
| "kind_of (SetupFilesFailed e) = files_error_kind e"
| "kind_of CreateTaskFailed = ExecutionEngineError"
| "kind_of StartTaskFailed = ExecutionEngineError"
| "kind_of AddToStoreFailed = DuplicateID"

subsection \<open>Sandboxes, containers and the world of the collaborators\<close>

text \<open>
  \<open>sandboxstore.Sandbox\<close> embeds \<open>sandboxstore.Metadata\<close> and adds the handles of the
  network namespace and of the containerd container.
\<close>

record SandboxMetadata =
  sbID :: string
  sbName :: string
  sbConfig :: PodSandboxConfig
  sbNetNSPath :: string

record Sandbox = SandboxMetadata +
  sbNetNS :: "string option"
  sbContainer :: "string option"

record PodNetwork =
  pnName :: string
  pnNamespace :: string
  pnID :: string
  pnNetNS :: string
  pnPortMappings :: "CNIPortMapping list"

datatype SpecOpts = WithUserID "32 word" | SeccompSpecOpts string

text \<open>What \<open>NewContainer\<close> is given: the options of lines 167 to 186 of the source.\<close>

record Container =
  cSnapshotter :: string
  cImage :: string
  cSnapshotKey :: string
  cSpec :: Spec
  cSpecOpts :: "SpecOpts list"
  cLabels :: "string \<rightharpoonup> string"
  cExtension :: SandboxMetadata
  cRuntime :: string
  cRuncOptions :: "string \<times> string \<times> bool"

datatype task_status = TaskCreated | TaskRunning

record MountPoint =
  mSource :: string
  mFSType :: string
  mFlags :: "64 word"
  mData :: string

text \<open>The calls that leave the embedded file, in the order in which they are made.\<close>

datatype event =
    CallReserve string string
  | CallReleaseByName string
  | CallEnsureImageExists string
  | CallNewNetNS
  | CallNetNSRemove string
  | CallSetUpPod PodNetwork
  | CallTearDownPod PodNetwork
  | CallNewContainer string
  | CallContainerDelete string
  | CallNewTask string
  | CallTaskStart string
  | CallTaskDelete string
  | CallStoreAdd string
  | CallMkdirAll string
  | CallRemoveAll string
  | CallCopyFile string string
  | CallWriteFile string string
  | CallStat string
  | CallMount string string
  | CallUnmount string

text \<open>
  Modelled from the spec: the state of the collaborators that are not under src/
  (sections 4.1, 4.2, 4.5 and 6 of the specification): the name index, the sandbox
  store, the image service, the network namespaces and the pods wired by the CNI
  plugin, the containers and tasks of the execution engine, and the directories,
  files and mounts of the OS layer. \<open>idNext\<close> is the id that \<open>util.GenerateID\<close> returns
  and \<open>netnsNext\<close> the path of the namespace that \<open>NewNetNS\<close> allocates. \<open>failing\<close> is
  the set of calls that the environment makes fail (the failure-injection points), and
  \<open>trace\<close> records every call made. A call that fails leaves the state as it was.
  File modes are not tracked.
\<close>

record world =
  sandboxNameIndex :: "string \<rightharpoonup> string"
  sandboxStore :: "string \<rightharpoonup> Sandbox"
  imageService :: "string \<rightharpoonup> ImageInfo"
  idNext :: string
  netnsNext :: string
  netns :: "string set"
  cniPods :: "PodNetwork set"
  containers :: "string \<rightharpoonup> Container"
  tasks :: "string \<rightharpoonup> task_status"
  dirs :: "string set"
  files :: "string \<rightharpoonup> string"
  mounts :: "string \<rightharpoonup> MountPoint"
  failing :: "event set"
  trace :: "event list"

datatype failure = Failure

definition called :: "event \<Rightarrow> world \<Rightarrow> world" where
  "called ev w = w\<lparr>trace := trace w @ [ev]\<rparr>"

subsubsection \<open>Name index and sandbox store\<close>

text \<open>
  Modelled from the spec: \<open>sandboxNameIndex.Reserve\<close> and \<open>ReleaseByName\<close> (section
  4.1): "Reserve(name, id) fails with Conflict if name is already reserved by a
  different id; otherwise atomically records the (name -> id) mapping.
  ReleaseByName(name) is idempotent and never fails on a missing entry."
\<close>

definition Reserve :: "string \<Rightarrow> string \<Rightarrow> world \<Rightarrow> failure option \<times> world" where
  "Reserve name sid w =
     (let w = called (CallReserve name sid) w
      in case sandboxNameIndex w name of
           Some k \<Rightarrow> if k \<noteq> sid then (Some Failure, w) else (None, w)
         | None \<Rightarrow> (None, w\<lparr>sandboxNameIndex := (sandboxNameIndex w)(name \<mapsto> sid)\<rparr>))"

definition ReleaseByName :: "string \<Rightarrow> world \<Rightarrow> world" where
  "ReleaseByName name w =
     (let w = called (CallReleaseByName name) w
      in w\<lparr>sandboxNameIndex := (sandboxNameIndex w)(name := None)\<rparr>)"

text \<open>
  Modelled from the spec: \<open>sandboxStore.Add\<close> (section 4.5): "Add fails with
  DuplicateID if the ID already exists".
\<close>

definition store_Add :: "Sandbox \<Rightarrow> world \<Rightarrow> failure option \<times> world" where
  "store_Add sandbox w =
     (let w = called (CallStoreAdd (sbID sandbox)) w
      in if sandboxStore w (sbID sandbox) \<noteq> None then (Some Failure, w)
         else (None, w\<lparr>sandboxStore := (sandboxStore w)(sbID sandbox \<mapsto> sandbox)\<rparr>))"

subsubsection \<open>Image service, network namespaces and CNI plugin\<close>

text \<open>
  Modelled from the spec: \<open>ensureImageExists\<close> (section 6): "EnsureImageExists(ref)
  -> (imageHandle, imageConfig); fails with ImageError if the image cannot be resolved
  or fetched".
\<close>

definition ensureImageExists :: "string \<Rightarrow> world \<Rightarrow> (failure + ImageInfo) \<times> world" where
  "ensureImageExists ref w =
     (let w = called (CallEnsureImageExists ref) w
      in case imageService w ref of
           None \<Rightarrow> (Inl Failure, w)
         | Some img \<Rightarrow> (Inr img, w))"

text \<open>
  Modelled from the spec: \<open>sandboxstore.NewNetNS\<close>, \<open>NetNS.Remove\<close> (section 4.2):
  "Create() allocates a new, isolated network namespace and returns an owning handle
  exposing its filesystem path; Remove() releases the namespace".
\<close>

definition NewNetNS :: "world \<Rightarrow> (failure + string) \<times> world" where
  "NewNetNS w =
     (let w = called CallNewNetNS w
      in if CallNewNetNS \<in> failing w then (Inl Failure, w)
         else (Inr (netnsNext w), w\<lparr>netns := insert (netnsNext w) (netns w)\<rparr>))"

definition NetNS_Remove :: "string \<Rightarrow> world \<Rightarrow> failure option \<times> world" where
  "NetNS_Remove path w =
     (let w = called (CallNetNSRemove path) w
      in if CallNetNSRemove path \<in> failing w then (Some Failure, w)
         else (None, w\<lparr>netns := netns w - {path}\<rparr>))"

text \<open>
  Modelled from the spec: \<open>netPlugin.SetUpPod\<close> and \<open>TearDownPod\<close> (sections 4.2 and
  6): TearDownPod with identical arguments is the exact inverse of SetUpPod.
\<close>

definition SetUpPod :: "PodNetwork \<Rightarrow> world \<Rightarrow> failure option \<times> world" where
  "SetUpPod podNetwork w =
     (let w = called (CallSetUpPod podNetwork) w
      in if CallSetUpPod podNetwork \<in> failing w then (Some Failure, w)
         else (None, w\<lparr>cniPods := insert podNetwork (cniPods w)\<rparr>))"

definition TearDownPod :: "PodNetwork \<Rightarrow> world \<Rightarrow> failure option \<times> world" where
  "TearDownPod podNetwork w =
     (let w = called (CallTearDownPod podNetwork) w
      in if CallTearDownPod podNetwork \<in> failing w then (Some Failure, w)
         else (None, w\<lparr>cniPods := cniPods w - {podNetwork}\<rparr>))"

subsubsection \<open>Execution engine\<close>

text \<open>
  Modelled from the spec: the containerd client (section 6): "NewContainer(id, ...)
  -> containerHandle; containerHandle.NewTask(io=null) -> taskHandle;
  taskHandle.Start(); containerHandle.Delete(cleanupSnapshot);
  taskHandle.Delete(killIfRunning)". The snapshot belongs to the container record and
  goes with it.
\<close>

definition NewContainer :: "string \<Rightarrow> Container \<Rightarrow> world \<Rightarrow> failure option \<times> world" where
  "NewContainer sid container w =
     (let w = called (CallNewContainer sid) w
      in if CallNewContainer sid \<in> failing w then (Some Failure, w)
         else (None, w\<lparr>containers := (containers w)(sid \<mapsto> container)\<rparr>))"

definition container_Delete :: "string \<Rightarrow> world \<Rightarrow> failure option \<times> world" where
  "container_Delete sid w =
     (let w = called (CallContainerDelete sid) w
      in if CallContainerDelete sid \<in> failing w then (Some Failure, w)
         else (None, w\<lparr>containers := (containers w)(sid := None)\<rparr>))"

definition NewTask :: "string \<Rightarrow> world \<Rightarrow> failure option \<times> world" where
  "NewTask sid w =
     (let w = called (CallNewTask sid) w
      in if CallNewTask sid \<in> failing w then (Some Failure, w)
         else (None, w\<lparr>tasks := (tasks w)(sid \<mapsto> TaskCreated)\<rparr>))"

definition task_Start :: "string \<Rightarrow> world \<Rightarrow> failure option \<times> world" where
  "task_Start sid w =
     (let w = called (CallTaskStart sid) w
      in if CallTaskStart sid \<in> failing w then (Some Failure, w)
         else (None, w\<lparr>tasks := (tasks w)(sid \<mapsto> TaskRunning)\<rparr>))"

definition task_Delete :: "string \<Rightarrow> world \<Rightarrow> failure option \<times> world" where
  "task_Delete sid w =
     (let w = called (CallTaskDelete sid) w
      in if CallTaskDelete sid \<in> failing w then (Some Failure, w)
         else (None, w\<lparr>tasks := (tasks w)(sid := None)\<rparr>))"

subsubsection \<open>OS layer\<close>

text \<open>A path lies under a directory when it is the directory or below it.\<close>

definition lies_under :: "string \<Rightarrow> string \<Rightarrow> bool" where
  "lies_under dir path = (path = dir \<or> prefix (dir @ ''/'') path)"

text \<open>
  Modelled from the spec: the OS primitives of \<open>c.os\<close> (section 6): "directory
  create/remove (recursive), file copy/write, mount/unmount with documented flags,
  stat". \<open>CopyFile\<close> and \<open>Stat\<close> report a missing path by an error that satisfies
  \<open>os.IsNotExist\<close>.
\<close>

definition MkdirAll :: "string \<Rightarrow> world \<Rightarrow> os_error option \<times> world" where
  "MkdirAll path w =
     (let w = called (CallMkdirAll path) w
      in if CallMkdirAll path \<in> failing w then (Some OtherOSError, w)
         else (None, w\<lparr>dirs := insert path (dirs w)\<rparr>))"

definition RemoveAll :: "string \<Rightarrow> world \<Rightarrow> os_error option \<times> world" where
  "RemoveAll path w =
     (let w = called (CallRemoveAll path) w
      in if CallRemoveAll path \<in> failing w then (Some OtherOSError, w)
         else (None, w\<lparr>dirs := Set.filter (\<lambda>d. \<not> lies_under path d) (dirs w),
                        files := (\<lambda>f. if lies_under path f then None else files w f)\<rparr>))"

definition CopyFile :: "string \<Rightarrow> string \<Rightarrow> world \<Rightarrow> os_error option \<times> world" where
  "CopyFile src dest w =
     (let w = called (CallCopyFile src dest) w
      in if CallCopyFile src dest \<in> failing w then (Some OtherOSError, w)
         else case files w src of
                None \<Rightarrow> (Some NotExist, w)
              | Some content \<Rightarrow> (None, w\<lparr>files := (files w)(dest \<mapsto> content)\<rparr>))"

definition WriteFile :: "string \<Rightarrow> string \<Rightarrow> world \<Rightarrow> os_error option \<times> world" where
  "WriteFile path content w =
     (let w = called (CallWriteFile path content) w
      in if CallWriteFile path content \<in> failing w then (Some OtherOSError, w)
         else (None, w\<lparr>files := (files w)(path \<mapsto> content)\<rparr>))"

definition Stat :: "string \<Rightarrow> world \<Rightarrow> os_error option \<times> world" where
  "Stat path w =
     (let w = called (CallStat path) w
      in if CallStat path \<in> failing w then (Some OtherOSError, w)
         else if path \<in> dirs w \<or> files w path \<noteq> None then (None, w)
         else (Some NotExist, w))"

definition Mount ::
  "string \<Rightarrow> string \<Rightarrow> string \<Rightarrow> 64 word \<Rightarrow> string \<Rightarrow> world \<Rightarrow> os_error option \<times> world" where
  "Mount source target fstype flags data w =
     (let w = called (CallMount source target) w
      in if CallMount source target \<in> failing w then (Some OtherOSError, w)
         else (None, w\<lparr>mounts := (mounts w)(target \<mapsto>
                 \<lparr>mSource = source, mFSType = fstype, mFlags = flags, mData = data\<rparr>)\<rparr>))"

text \<open>
  Modelled from the spec: \<open>c.os.Unmount\<close>, after the comment above
  \<open>unmountSandboxFiles\<close> in the source and section 4.4 of the specification: a target
  that does not exist gives an error that satisfies \<open>os.IsNotExist\<close>, a target that
  exists and is not mounted gives no error, a mounted target is unmounted unless the
  environment makes the call fail.
\<close>

definition Unmount :: "string \<Rightarrow> 64 word \<Rightarrow> world \<Rightarrow> os_error option \<times> world" where
  "Unmount target flags w =
     (let w = called (CallUnmount target) w
      in if target \<notin> dirs w then (Some NotExist, w)
         else if mounts w target = None then (None, w)
         else if CallUnmount target \<in> failing w then (Some OtherOSError, w)
         else (None, w\<lparr>mounts := (mounts w)(target := None)\<rparr>))"

definition IsNotExist :: "os_error \<Rightarrow> bool" where
  "IsNotExist err = (err = NotExist)"

subsection \<open>Sandbox files\<close>

text \<open>
  Constants of the package that the file uses: the host paths (the comments of the
  source give \<open>/etc/hosts\<close> and \<open>/etc/resolv.conf\<close>), the size of the shared memory
  mount (64M by the comment of the source), the flags of package \<open>unix\<close>.
\<close>

definition etcHosts :: string where
  "etcHosts = ''/etc/hosts''"

definition resolvConfPath :: string where
  "resolvConfPath = ''/etc/resolv.conf''"

definition devShm :: string where
  "devShm = ''/dev/shm''"

definition defaultShmSize :: nat where
  "defaultShmSize = 64 * 1024 * 1024"

definition MS_NOSUID :: "64 word" where
  "MS_NOSUID = 2"

definition MS_NODEV :: "64 word" where
  "MS_NODEV = 4"

definition MS_NOEXEC :: "64 word" where
  "MS_NOEXEC = 8"

definition MNT_DETACH :: "64 word" where
  "MNT_DETACH = 2"

text \<open>
  Modelled from the spec: the path helpers \<open>getSandboxRootDir\<close>, \<open>getSandboxHosts\<close>,
  \<open>getResolvPath\<close> and \<open>getSandboxDevShm\<close> (section 6: "a sandbox root directory per
  sandbox ID containing ... an etc-hosts file, a resolv.conf file, and (unless
  host-IPC) a shm mount point").
\<close>

definition getSandboxRootDir :: "string \<Rightarrow> string \<Rightarrow> string" where
  "getSandboxRootDir rootDir sid = rootDir @ ''/'' @ sid"

definition getSandboxHosts :: "string \<Rightarrow> string" where
  "getSandboxHosts sandboxRootDir = sandboxRootDir @ ''/etc-hosts''"

definition getResolvPath :: "string \<Rightarrow> string" where
  "getResolvPath sandboxRootDir = sandboxRootDir @ ''/resolv.conf''"

definition getSandboxDevShm :: "string \<Rightarrow> string" where
  "getSandboxDevShm sandboxRootDir = sandboxRootDir @ ''/shm''"

text \<open>
  \<open>setupSandboxFiles\<close>, in the three parts of its body: the hosts file (lines 379 to
  383), the resolver file (lines 385 to 409), the shared memory (lines 411 to 427).
\<close>

definition setupSandboxFiles_resolv ::
  "string \<Rightarrow> PodSandboxConfig \<Rightarrow> world \<Rightarrow> files_error option \<times> world" where
  "setupSandboxFiles_resolv rootDir config w =
     (case (case DnsConfig config of
              None \<Rightarrow> Inr []
            | Some dnsConfig \<Rightarrow>
                parseDNSOptions (Servers dnsConfig) (Searches dnsConfig) (Options dnsConfig)) of
        Inl err \<Rightarrow> (Some (ParseDNSFailed err), w)
      | Inr resolvContent \<Rightarrow>
          let resolvPath = getResolvPath rootDir
          in if resolvContent = []
             then (case CopyFile resolvConfPath resolvPath w of
                     (Some err, w') \<Rightarrow> (Some CopyResolvFailed, w')
                   | (None, w') \<Rightarrow> (None, w'))
             else (case WriteFile resolvPath resolvContent w of
                     (Some err, w') \<Rightarrow> (Some WriteResolvFailed, w')
                   | (None, w') \<Rightarrow> (None, w')))"

definition setupSandboxFiles_shm ::
  "string \<Rightarrow> PodSandboxConfig \<Rightarrow> world \<Rightarrow> files_error option \<times> world" where
  "setupSandboxFiles_shm rootDir config w =
     (if HostIpc (NamespaceOptions (SecurityContext (Linux config)))
      then (case Stat devShm w of
              (Some err, w') \<Rightarrow> (Some HostShmUnavailable, w')
            | (None, w') \<Rightarrow> (None, w'))
      else
        let sandboxDevShm = getSandboxDevShm rootDir
        in case MkdirAll sandboxDevShm w of
             (Some err, w') \<Rightarrow> (Some CreateShmFailed, w')
           | (None, w') \<Rightarrow>
               (let shmproperty = ''mode=1777,size='' @ Sprintf_d defaultShmSize
                in case Mount ''shm'' sandboxDevShm ''tmpfs''
                          (MS_NOEXEC OR MS_NOSUID OR MS_NODEV) shmproperty w' of
                     (Some err, w'') \<Rightarrow> (Some MountShmFailed, w'')
                   | (None, w'') \<Rightarrow> (None, w'')))"

definition setupSandboxFiles ::
  "string \<Rightarrow> PodSandboxConfig \<Rightarrow> world \<Rightarrow> files_error option \<times> world" where
  "setupSandboxFiles rootDir config w =
     (let sandboxEtcHosts = getSandboxHosts rootDir
      in case CopyFile etcHosts sandboxEtcHosts w of
           (Some err, w1) \<Rightarrow> (Some HostsFileFailed, w1)
         | (None, w1) \<Rightarrow>
             (case setupSandboxFiles_resolv rootDir config w1 of
                (Some err, w2) \<Rightarrow> (Some err, w2)
              | (None, w2) \<Rightarrow> setupSandboxFiles_shm rootDir config w2))"

definition unmountSandboxFiles ::
  "string \<Rightarrow> PodSandboxConfig \<Rightarrow> world \<Rightarrow> os_error option \<times> world" where
  "unmountSandboxFiles rootDir config w =
     (if \<not> HostIpc (NamespaceOptions (SecurityContext (Linux config)))
      then (case Unmount (getSandboxDevShm rootDir) MNT_DETACH w of
              (Some err, w') \<Rightarrow> if \<not> IsNotExist err then (Some err, w') else (None, w')
            | (None, w') \<Rightarrow> (None, w'))
      else (None, w))"

subsection \<open>The service and the declarations of the package it uses\<close>

text \<open>
  The fields of \<open>criContainerdService\<close> and of its \<open>config\<close> that the functions read.
  The functions and constants of package \<open>server\<close> that the embedded file calls and
  that are declared outside it are parameters, carried by the same record:
  \<open>makeSandboxName\<close>, \<open>defaultRuntimeSpec\<close> (\<open>None\<close> is its error),
  \<open>addImageEnvs\<close> (from the environment of the specification and the image's
  variables to the new environment, \<open>None\<close> its error), \<open>getCgroupsPath\<close>,
  \<open>initSelinuxOpts\<close> (the process label and the mount label, \<open>None\<close> its error),
  \<open>generateSeccompSpecOpts\<close> (\<open>Inl\<close> its error, \<open>Inr None\<close> the nil option),
  \<open>buildLabels\<close>, \<open>defaultSandboxCPUshares\<close> and \<open>defaultSandboxOOMAdj\<close>.
\<close>

record criContainerdService =
  SandboxImage :: string
  RootDir :: string
  SystemdCgroup :: bool
  Snapshotter :: string
  Runtime :: string
  RuntimeEngine :: string
  RuntimeRoot :: string
  seccompEnabled :: bool
  makeSandboxName :: "PodSandboxMetadata \<Rightarrow> string"
  defaultRuntimeSpec :: "string \<Rightarrow> Spec option"
  addImageEnvs :: "string list \<Rightarrow> string list \<Rightarrow> string list option"
  getCgroupsPath :: "string \<Rightarrow> string \<Rightarrow> bool \<Rightarrow> string"
  initSelinuxOpts :: "SELinuxOption option \<Rightarrow> (string \<times> string) option"
  generateSeccompSpecOpts :: "string \<Rightarrow> bool \<Rightarrow> bool \<Rightarrow> failure + string option"
  buildLabels :: "(string \<rightharpoonup> string) \<Rightarrow> string \<Rightarrow> (string \<rightharpoonup> string)"
  defaultSandboxCPUshares :: "64 word"
  defaultSandboxOOMAdj :: int

text \<open>The constants that the comments of the source give.\<close>

definition relativeRootfsPath :: string where
  "relativeRootfsPath = ''rootfs''"

definition containerKindSandbox :: string where
  "containerKindSandbox = ''sandbox''"

subsection \<open>The specification of the sandbox container\<close>

text \<open>
  The namespace part of \<open>generateSandboxContainerSpec\<close> (lines 324 to 341):
  the calls on the generator for the network, PID and IPC namespaces.
\<close>

definition setNamespaceOptions :: "NamespaceOption \<Rightarrow> string \<Rightarrow> Spec \<Rightarrow> Spec" where
  "setNamespaceOptions nsOptions nsPath g =
     (let g = (if HostNetwork nsOptions
               then g\<lparr>LinuxNamespaces := RemoveLinuxNamespace NetworkNamespace (LinuxNamespaces g)\<rparr>
               else g\<lparr>LinuxNamespaces :=
                        AddOrReplaceLinuxNamespace NetworkNamespace nsPath (LinuxNamespaces g)\<rparr>);
          g = (if HostPid nsOptions
               then g\<lparr>LinuxNamespaces := RemoveLinuxNamespace PIDNamespace (LinuxNamespaces g)\<rparr>
               else g);
          g = (if HostIpc nsOptions
               then g\<lparr>LinuxNamespaces := RemoveLinuxNamespace IPCNamespace (LinuxNamespaces g)\<rparr>
               else g)
      in g)"

definition generateSandboxContainerSpec ::
  "criContainerdService \<Rightarrow> string \<Rightarrow> PodSandboxConfig \<Rightarrow> ImageConfig \<Rightarrow> string
     \<Rightarrow> spec_error + Spec" where
  "generateSandboxContainerSpec c sid config imageConfig nsPath =
     (case defaultRuntimeSpec c sid of
        None \<Rightarrow> Inl DefaultSpecFailed
      | Some spec \<Rightarrow>
          (case addImageEnvs c (ProcessEnv spec) (imgEnv imageConfig) of
             None \<Rightarrow> Inl ImageEnvsFailed
           | Some env \<Rightarrow>
               (let g = spec\<lparr>ProcessEnv := env\<rparr>;
                    g = (if imgWorkingDir imageConfig \<noteq> []
                         then g\<lparr>ProcessCwd := imgWorkingDir imageConfig\<rparr> else g)
                in if length (imgEntrypoint imageConfig) = 0 then Inl EmptyEntrypoint
                   else
                     (let g = g\<lparr>ProcessArgs := imgEntrypoint imageConfig @ imgCmd imageConfig\<rparr>;
                          g = g\<lparr>RootPath := relativeRootfsPath\<rparr>;
                          g = g\<lparr>RootReadonly := True\<rparr>;
                          g = g\<lparr>SpecHostname := Hostname config\<rparr>;
                          g = (if CgroupParent (Linux config) \<noteq> []
                               then g\<lparr>LinuxCgroupsPath :=
                                        getCgroupsPath c (CgroupParent (Linux config)) sid
                                          (SystemdCgroup c)\<rparr>
                               else g);
                          securityContext = SecurityContext (Linux config);
                          nsOptions = NamespaceOptions securityContext;
                          g = setNamespaceOptions nsOptions nsPath g
                      in case initSelinuxOpts c (SelinuxOptions securityContext) of
                           None \<Rightarrow> Inl SelinuxOptsFailed
                         | Some (processLabel, mountLabel) \<Rightarrow>
                             (let g = g\<lparr>ProcessSelinuxLabel := processLabel\<rparr>;
                                  g = g\<lparr>LinuxMountLabel := mountLabel\<rparr>;
                                  g = g\<lparr>ProcessAdditionalGids :=
                                           foldl (\<lambda>gids group. AddProcessAdditionalGid (ucast group) gids)
                                             (ProcessAdditionalGids g)
                                             (SupplementalGroups securityContext)\<rparr>;
                                  g = g\<lparr>LinuxSysctl := LinuxSysctl g ++ Sysctls (Linux config)\<rparr>;
                                  g = g\<lparr>LinuxCPUShares := Some (defaultSandboxCPUshares c)\<rparr>;
                                  g = g\<lparr>ProcessOOMScoreAdj := Some (defaultSandboxOOMAdj c)\<rparr>
                              in Inr g)))))"

subsection \<open>RunPodSandbox\<close>

text \<open>
  A deferred function of the form \<open>defer func() { if retErr != nil { cleanup } }()\<close>:
  it wraps the rest of the function body, and runs \<open>cleanup\<close> when that rest returns
  an error. The error that a cleanup gets from its call is logged and dropped, so a
  cleanup is a function on the world. Deferred functions nest in the order of their
  registration, hence run in the reverse of it.
\<close>

definition deferred :: "(world \<Rightarrow> world) \<Rightarrow> (error + 'a) \<times> world \<Rightarrow> (error + 'a) \<times> world" where
  "deferred cleanup rw =
     (case rw of
        (Inl retErr, w) \<Rightarrow> (Inl retErr, cleanup w)
      | (Inr v, w) \<Rightarrow> (Inr v, w))"

text \<open>Lines 233 to 266: the task is created and started, the sandbox is stored.\<close>

definition RunPodSandbox_task :: "string \<Rightarrow> Sandbox \<Rightarrow> world \<Rightarrow> (error + string) \<times> world" where
  "RunPodSandbox_task sid sandbox w =
     (case NewTask sid w of
        (Some err, w1) \<Rightarrow> (Inl CreateTaskFailed, w1)
      | (None, w1) \<Rightarrow>
          deferred (\<lambda>w. snd (task_Delete sid w))
            (case task_Start sid w1 of
               (Some err, w2) \<Rightarrow> (Inl StartTaskFailed, w2)
             | (None, w2) \<Rightarrow>
                 (case store_Add (sandbox\<lparr>sbContainer := Some sid\<rparr>) w2 of
                    (Some err, w3) \<Rightarrow> (Inl AddToStoreFailed, w3)
                  | (None, w3) \<Rightarrow> (Inr sid, w3))))"

text \<open>Lines 201 to 231: the root directory of the sandbox and its files.\<close>

definition RunPodSandbox_files ::
  "criContainerdService \<Rightarrow> string \<Rightarrow> PodSandboxConfig \<Rightarrow> Sandbox \<Rightarrow> world
     \<Rightarrow> (error + string) \<times> world" where
  "RunPodSandbox_files c sid config sandbox w =
     (let sandboxRootDir = getSandboxRootDir (RootDir c) sid
      in case MkdirAll sandboxRootDir w of
           (Some err, w1) \<Rightarrow> (Inl CreateRootDirFailed, w1)
         | (None, w1) \<Rightarrow>
             deferred (\<lambda>w. snd (RemoveAll sandboxRootDir w))
               (case setupSandboxFiles sandboxRootDir config w1 of
                  (Some err, w2) \<Rightarrow> (Inl (SetupFilesFailed err), w2)
                | (None, w2) \<Rightarrow>
                    deferred (\<lambda>w. snd (unmountSandboxFiles sandboxRootDir config w))
                      (RunPodSandbox_task sid sandbox w2)))"

text \<open>Lines 135 to 199: the specification, its options and the containerd container.\<close>

definition RunPodSandbox_container ::
  "criContainerdService \<Rightarrow> string \<Rightarrow> PodSandboxConfig \<Rightarrow> ImageInfo \<Rightarrow> Sandbox \<Rightarrow> world
     \<Rightarrow> (error + string) \<times> world" where
  "RunPodSandbox_container c sid config img sandbox w =
     (let securityContext = SecurityContext (Linux config)
      in case generateSandboxContainerSpec c sid config (imgInfoConfig img) (sbNetNSPath sandbox) of
           Inl err \<Rightarrow> (Inl (GenerateSpecFailed err), w)
         | Inr spec \<Rightarrow>
             (let specOpts = (case RunAsUser securityContext of
                                Some uid \<Rightarrow> [WithUserID (ucast uid)]
                              | None \<Rightarrow> [])
              in case generateSeccompSpecOpts c (SeccompProfilePath securityContext)
                        (Privileged securityContext) (seccompEnabled c) of
                   Inl err \<Rightarrow> (Inl SeccompSpecOptsFailed, w)
                 | Inr seccompSpecOpts \<Rightarrow>
                     (let specOpts = (case seccompSpecOpts of
                                        Some opt \<Rightarrow> specOpts @ [SeccompSpecOpts opt]
                                      | None \<Rightarrow> specOpts);
                          sandboxLabels = buildLabels c (Labels config) containerKindSandbox;
                          container = \<lparr>cSnapshotter = Snapshotter c,
                                       cImage = imgInfoImage img,
                                       cSnapshotKey = sid,
                                       cSpec = spec,
                                       cSpecOpts = specOpts,
                                       cLabels = sandboxLabels,
                                       cExtension = SandboxMetadata.truncate sandbox,
                                       cRuntime = Runtime c,
                                       cRuncOptions = (RuntimeEngine c, RuntimeRoot c, SystemdCgroup c)\<rparr>
                      in case NewContainer sid container w of
                           (Some err, w1) \<Rightarrow> (Inl CreateContainerFailed, w1)
                         | (None, w1) \<Rightarrow>
                             deferred (\<lambda>w. snd (container_Delete sid w))
                               (RunPodSandbox_files c sid config sandbox w1))))"

text \<open>Lines 88 to 133: the network namespace and the CNI network, unless host network.\<close>

definition podNetworkOf :: "string \<Rightarrow> PodSandboxConfig \<Rightarrow> string \<Rightarrow> PodNetwork" where
  "podNetworkOf sid config netNSPath =
     \<lparr>pnName = mdName (Metadata config),
      pnNamespace = mdNamespace (Metadata config),
      pnID = sid,
      pnNetNS = netNSPath,
      pnPortMappings = toCNIPortMappings (PortMappings config)\<rparr>"

definition RunPodSandbox_network ::
  "criContainerdService \<Rightarrow> string \<Rightarrow> PodSandboxConfig \<Rightarrow> ImageInfo \<Rightarrow> Sandbox \<Rightarrow> world
     \<Rightarrow> (error + string) \<times> world" where
  "RunPodSandbox_network c sid config img sandbox w =
     (let securityContext = SecurityContext (Linux config);
          hostNet = HostNetwork (NamespaceOptions securityContext)
      in if \<not> hostNet
         then (case NewNetNS w of
                 (Inl err, w1) \<Rightarrow> (Inl CreateNetNSFailed, w1)
               | (Inr path, w1) \<Rightarrow>
                   (let sandbox = sandbox\<lparr>sbNetNS := Some path\<rparr>;
                        sandbox = sandbox\<lparr>sbNetNSPath := path\<rparr>
                    in deferred (\<lambda>w. snd (NetNS_Remove path w))
                         (let podNetwork = podNetworkOf sid config (sbNetNSPath sandbox)
                          in case SetUpPod podNetwork w1 of
                               (Some err, w2) \<Rightarrow> (Inl SetupNetworkFailed, w2)
                             | (None, w2) \<Rightarrow>
                                 deferred (\<lambda>w. snd (TearDownPod podNetwork w))
                                   (RunPodSandbox_container c sid config img sandbox w2))))
         else RunPodSandbox_container c sid config img sandbox w)"

text \<open>
  \<open>RunPodSandbox\<close>, lines 49 to 87 and then the parts above. The request is its
  configuration; the result is the error or the id of the sandbox.
\<close>

definition RunPodSandbox ::
  "criContainerdService \<Rightarrow> PodSandboxConfig \<Rightarrow> world \<Rightarrow> (error + string) \<times> world" where
  "RunPodSandbox c config w =
     (let sid = idNext w;
          name = makeSandboxName c (Metadata config)
      in case Reserve name sid w of
           (Some err, w1) \<Rightarrow> (Inl ReserveNameFailed, w1)
         | (None, w1) \<Rightarrow>
             deferred (ReleaseByName name)
               (let sandbox = \<lparr>sbID = sid, sbName = name, sbConfig = config, sbNetNSPath = [],
                               sbNetNS = None, sbContainer = None\<rparr>
                in case ensureImageExists (SandboxImage c) w1 of
                     (Inl err, w2) \<Rightarrow> (Inl GetSandboxImageFailed, w2)
                   | (Inr img, w2) \<Rightarrow> RunPodSandbox_network c sid config img sandbox w2))"

subsection \<open>Notions for stating the properties\<close>

text \<open>The calls by which the deferred functions of \<open>RunPodSandbox\<close> undo a step.\<close>

fun is_compensation :: "event \<Rightarrow> bool" where
  "is_compensation (CallReleaseByName name) = True"
| "is_compensation (CallNetNSRemove path) = True"
| "is_compensation (CallTearDownPod podNetwork) = True"
| "is_compensation (CallContainerDelete sid) = True"
| "is_compensation (CallRemoveAll path) = True"
| "is_compensation (CallUnmount path) = True"
| "is_compensation (CallTaskDelete sid) = True"
| "is_compensation ev = False"

definition compensations :: "world \<Rightarrow> event list" where
  "compensations w = filter is_compensation (trace w)"

text \<open>
  The part of the world that no call changes, and the resources that sandboxes occupy.
\<close>

definition environment ::
  "world \<Rightarrow> (string \<rightharpoonup> ImageInfo) \<times> string \<times> string \<times> event set" where
  "environment w = (imageService w, idNext w, netnsNext w, failing w)"

definition resources ::
  "world \<Rightarrow> (string \<rightharpoonup> Sandbox) \<times> string set \<times> PodNetwork set \<times> (string \<rightharpoonup> Container)
     \<times> (string \<rightharpoonup> task_status) \<times> string set \<times> (string \<rightharpoonup> string) \<times> (string \<rightharpoonup> MountPoint)" where
  "resources w =
     (sandboxStore w, netns w, cniPods w, containers w, tasks w, dirs w, files w, mounts w)"

text \<open>
  The id and the namespace path that the next request gets are new: no container or
  task has the id, no pod of the CNI plugin has it, nothing lies under the root
  directory of the sandbox, and the namespace does not exist yet.
\<close>

definition fresh_sandbox :: "criContainerdService \<Rightarrow> world \<Rightarrow> bool" where
  "fresh_sandbox c w =
     (let sid = idNext w; sandboxRootDir = getSandboxRootDir (RootDir c) sid
      in containers w sid = None \<and> tasks w sid = None
         \<and> netnsNext w \<notin> netns w
         \<and> (\<forall>podNetwork \<in> cniPods w. pnID podNetwork \<noteq> sid)
         \<and> (\<forall>d \<in> dirs w. \<not> lies_under sandboxRootDir d)
         \<and> (\<forall>f \<in> dom (files w). \<not> lies_under sandboxRootDir f)
         \<and> (\<forall>m \<in> dom (mounts w). \<not> lies_under sandboxRootDir m))"

text \<open>No compensating call is made to fail by the environment.\<close>

definition rollback_succeeds :: "world \<Rightarrow> bool" where
  "rollback_succeeds w = (\<forall>ev \<in> failing w. \<not> is_compensation ev)"

text \<open>
  The compensating calls of a request in the order in which the deferred functions
  run them, which is the reverse of the order of their registration in the source:
  line 244 (task), 224 (files), 209 (root directory), 193 (container), 125 (CNI), 103
  (namespace), 63 (name).
\<close>

definition rollback_steps :: "criContainerdService \<Rightarrow> PodSandboxConfig \<Rightarrow> world \<Rightarrow> event list" where
  "rollback_steps c config w =
     (let sid = idNext w;
          sandboxRootDir = getSandboxRootDir (RootDir c) sid;
          nsOptions = NamespaceOptions (SecurityContext (Linux config))
      in [CallTaskDelete sid]
         @ (if HostIpc nsOptions then [] else [CallUnmount (getSandboxDevShm sandboxRootDir)])
         @ [CallRemoveAll sandboxRootDir, CallContainerDelete sid]
         @ (if HostNetwork nsOptions then []
            else [CallTearDownPod (podNetworkOf sid config (netnsNext w)),
                  CallNetNSRemove (netnsNext w)])
         @ [CallReleaseByName (makeSandboxName c (Metadata config))])"

text \<open>
  The number of deferred functions registered when \<open>RunPodSandbox\<close> returns a given
  error, and the position of the registration of a compensating call.
\<close>

fun defers_registered :: "error \<Rightarrow> nat" where
  "defers_registered ReserveNameFailed = 0"
| "defers_registered GetSandboxImageFailed = 1"
| "defers_registered CreateNetNSFailed = 1"
| "defers_registered SetupNetworkFailed = 2"
| "defers_registered (GenerateSpecFailed err) = 3"
| "defers_registered SeccompSpecOptsFailed = 3"
| "defers_registered CreateContainerFailed = 3"
| "defers_registered CreateRootDirFailed = 4"
| "defers_registered (SetupFilesFailed err) = 5"
| "defers_registered CreateTaskFailed = 6"
| "defers_registered StartTaskFailed = 7"
| "defers_registered AddToStoreFailed = 7"

fun registered_as :: "event \<Rightarrow> nat" where
  "registered_as (CallReleaseByName name) = 1"
| "registered_as (CallNetNSRemove path) = 2"
| "registered_as (CallTearDownPod podNetwork) = 3"
| "registered_as (CallContainerDelete sid) = 4"
| "registered_as (CallRemoveAll path) = 5"
| "registered_as (CallUnmount path) = 6"
| "registered_as (CallTaskDelete sid) = 7"
| "registered_as ev = 0"

definition rollback_of ::
  "criContainerdService \<Rightarrow> PodSandboxConfig \<Rightarrow> world \<Rightarrow> error \<Rightarrow> event list" where
  "rollback_of c config w err =
     filter (\<lambda>ev. registered_as ev \<le> defers_registered err) (rollback_steps c config w)"

text \<open>
  The order in which the specification lists the compensations (section 4.6): the
  filesystem, then the task and the container, then the root directory, then the CNI
  network and the namespace, then the name.
\<close>

definition listed_rollback_order ::
  "criContainerdService \<Rightarrow> PodSandboxConfig \<Rightarrow> world \<Rightarrow> event list" where
  "listed_rollback_order c config w =
     (let sid = idNext w;
          sandboxRootDir = getSandboxRootDir (RootDir c) sid
      in [CallUnmount (getSandboxDevShm sandboxRootDir),
          CallTaskDelete sid, CallContainerDelete sid,
          CallRemoveAll sandboxRootDir,
          CallTearDownPod (podNetworkOf sid config (netnsNext w)),
          CallNetNSRemove (netnsNext w),
          CallReleaseByName (makeSandboxName c (Metadata config))])"

subsection \<open>An example host, service and pod\<close>

text \<open>
  A host with its \<open>/etc/hosts\<close>, \<open>/etc/resolv.conf\<close> and \<open>/dev/shm\<close>, an image service
  that knows the pause image, and no sandbox yet; a service with simple helpers; a pod
  with its own network and IPC namespaces and no DNS configuration.
\<close>

definition pause_image :: ImageInfo where
  "pause_image =
     \<lparr>imgInfoImage = ''pause:3.0'',
      imgInfoConfig = \<lparr>imgEnv = [], imgWorkingDir = [], imgEntrypoint = [''/pause''], imgCmd = []\<rparr>\<rparr>"

definition example_world :: world where
  "example_world =
     \<lparr>sandboxNameIndex = Map.empty,
      sandboxStore = Map.empty,
      imageService = [''pause:3.0'' \<mapsto> pause_image],
      idNext = ''sb1'',
      netnsNext = ''/var/run/netns/cni-1'',
      netns = {},
      cniPods = {},
      containers = Map.empty,
      tasks = Map.empty,
      dirs = {''/dev/shm''},
      files = [''/etc/hosts'' \<mapsto> ''127.0.0.1 localhost'',
               ''/etc/resolv.conf'' \<mapsto> ''nameserver 192.168.0.1''],
      mounts = Map.empty,
      failing = {},
      trace = []\<rparr>"

definition example_spec :: Spec where
  "example_spec =
     \<lparr>ProcessEnv = [], ProcessCwd = ''/'', ProcessArgs = [], ProcessSelinuxLabel = [],
      ProcessAdditionalGids = [], ProcessOOMScoreAdj = None, RootPath = [],
      RootReadonly = False, SpecHostname = [], LinuxCgroupsPath = [],
      LinuxNamespaces =
        [\<lparr>lnsType = PIDNamespace, lnsPath = []\<rparr>, \<lparr>lnsType = IPCNamespace, lnsPath = []\<rparr>,
         \<lparr>lnsType = UTSNamespace, lnsPath = []\<rparr>, \<lparr>lnsType = MountNamespace, lnsPath = []\<rparr>,
         \<lparr>lnsType = NetworkNamespace, lnsPath = []\<rparr>],
      LinuxMountLabel = [], LinuxSysctl = Map.empty, LinuxCPUShares = None\<rparr>"

definition example_service :: criContainerdService where
  "example_service =
     \<lparr>SandboxImage = ''pause:3.0'',
      RootDir = ''/var/lib/cri-containerd'',
      SystemdCgroup = False,
      Snapshotter = ''overlayfs'',
      Runtime = ''io.containerd.runtime.v1.linux'',
      RuntimeEngine = [],
      RuntimeRoot = [],
      seccompEnabled = False,
      makeSandboxName = (\<lambda>m. mdName m @ ''_'' @ mdNamespace m @ ''_'' @ mdUid m),
      defaultRuntimeSpec = (\<lambda>sid. Some example_spec),
      addImageEnvs = (\<lambda>env imageEnvs. Some (env @ imageEnvs)),
      getCgroupsPath = (\<lambda>cgroupsParent sid systemd. cgroupsParent @ ''/'' @ sid),
      initSelinuxOpts = (\<lambda>selinuxOpt. Some ([], [])),
      generateSeccompSpecOpts = (\<lambda>profile privileged enabled. Inr None),
      buildLabels = (\<lambda>labels kind. labels(''io.cri-containerd.kind'' \<mapsto> kind)),
      defaultSandboxCPUshares = 2,
      defaultSandboxOOMAdj = - 998\<rparr>"

definition example_config :: PodSandboxConfig where
  "example_config =
     \<lparr>Metadata = \<lparr>mdName = ''web'', mdUid = ''u1'', mdNamespace = ''default'', mdAttempt = 0\<rparr>,
      Hostname = ''web'',
      DnsConfig = None,
      PortMappings = [],
      Labels = Map.empty,
      Linux = \<lparr>CgroupParent = [],
               SecurityContext =
                 \<lparr>NamespaceOptions = \<lparr>HostNetwork = False, HostPid = False, HostIpc = False\<rparr>,
                  SelinuxOptions = None, RunAsUser = None, SupplementalGroups = [],
                  Privileged = False, SeccompProfilePath = []\<rparr>,
               Sysctls = Map.empty\<rparr>\<rparr>"

definition host_ipc :: "PodSandboxConfig \<Rightarrow> PodSandboxConfig" where
  "host_ipc config =
     config\<lparr>Linux := (Linux config)\<lparr>SecurityContext := (SecurityContext (Linux config))
       \<lparr>NamespaceOptions := (NamespaceOptions (SecurityContext (Linux config)))
          \<lparr>HostIpc := True\<rparr>\<rparr>\<rparr>\<rparr>"

definition host_network :: "PodSandboxConfig \<Rightarrow> PodSandboxConfig" where
  "host_network config =
     config\<lparr>Linux := (Linux config)\<lparr>SecurityContext := (SecurityContext (Linux config))
       \<lparr>NamespaceOptions := (NamespaceOptions (SecurityContext (Linux config)))
          \<lparr>HostNetwork := True\<rparr>\<rparr>\<rparr>\<rparr>"

definition seven_searches :: DNSConfig where
  "seven_searches =
     \<lparr>Servers = [], Searches = [''a'', ''b'', ''c'', ''d'', ''e'', ''f'', ''g''], Options = []\<rparr>"

definition six_searches :: DNSConfig where
  "six_searches =
     \<lparr>Servers = [], Searches = [''a'', ''b'', ''c'', ''d'', ''e'', ''f''], Options = []\<rparr>"

definition empty_dns :: DNSConfig where
  "empty_dns = \<lparr>Servers = [], Searches = [], Options = []\<rparr>"

section \<open>Properties\<close>

subsection \<open>Port mapping translation\<close>

lemma toCNIPortMappings_loop_append:
  "toCNIPortMappings_loop acc ms = acc @ spec_port_translation ms"
  by (induction ms arbitrary: acc) (simp_all add: spec_port_translation_def forwarded_def)

text \<open>
  C6: the CNI translation of a list of CRI port mappings is exactly the list of the
  mappings whose host port is positive, in their order, each with host port and
  container port unchanged and the protocol name in lower case. A mapping with host port
  0 is dropped, and the mapping with host port 8080, container port 80 and protocol TCP
  becomes the entry with host port 8080, container port 80 and protocol "tcp".
\<close>

theorem toCNIPortMappings_forwards_positive_host_ports:
  "toCNIPortMappings ms = spec_port_translation ms
   \<and> toCNIPortMappings (\<lparr>Protocol = p, ContainerPort = cp, HostPort = 0, HostIp = ip\<rparr> # ms)
       = toCNIPortMappings ms
   \<and> toCNIPortMappings [\<lparr>Protocol = TCP, ContainerPort = 80, HostPort = 8080, HostIp = ip\<rparr>]
       = [\<lparr>cniHostPort = 8080, cniContainerPort = 80, cniProtocol = ''tcp'', cniHostIP = ip\<rparr>]"
proof -
  have lower: "ToLower ''TCP'' = ''tcp''"
    by (simp add: ToLower_def lower_char_def)
  have "toCNIPortMappings ms = spec_port_translation ms" for ms
    by (simp add: toCNIPortMappings_def toCNIPortMappings_loop_append)
  then show ?thesis
    by (simp add: spec_port_translation_def forwarded_def lower)
qed

subsection \<open>DNS rendering\<close>

text \<open>
  C4: for the servers 10.0.0.1 and 10.0.0.2, the searches a.svc and b.svc and the option
  ndots:5, \<open>parseDNSOptions\<close> returns without error the search line, then one nameserver
  line for each server, then the options line, each ended by a newline.
\<close>

theorem parseDNSOptions_renders_resolv_conf:
  "parseDNSOptions [''10.0.0.1'', ''10.0.0.2''] [''a.svc'', ''b.svc''] [''ndots:5'']
     = Inr (''search a.svc b.svc'' @ [CHR 0x0A]
            @ ''nameserver 10.0.0.1'' @ [CHR 0x0A]
            @ ''nameserver 10.0.0.2'' @ [CHR 0x0A]
            @ ''options ndots:5'' @ [CHR 0x0A])"
  by (simp add: parseDNSOptions_def maxDNSSearches_def)

subsection \<open>Sandbox files\<close>

lemmas os_defs =
  CopyFile_def WriteFile_def Stat_def MkdirAll_def Mount_def Unmount_def RemoveAll_def called_def

lemmas view_defs = environment_def resources_def compensations_def

lemma lies_under_self [simp]: "lies_under d d"
  by (simp add: lies_under_def)

lemma lies_under_hosts [simp]: "lies_under root (getSandboxHosts root)"
  by (simp add: lies_under_def getSandboxHosts_def)

lemma lies_under_resolv [simp]: "lies_under root (getResolvPath root)"
  by (simp add: lies_under_def getResolvPath_def)

lemma lies_under_shm [simp]: "lies_under root (getSandboxDevShm root)"
  by (simp add: lies_under_def getSandboxDevShm_def)

lemma not_under_ne:
  "\<not> lies_under root p \<Longrightarrow>
     p \<noteq> getSandboxHosts root \<and> p \<noteq> getResolvPath root \<and> p \<noteq> getSandboxDevShm root \<and> p \<noteq> root"
  by auto

lemma hosts_ne_resolv [simp]: "getSandboxHosts root \<noteq> getResolvPath root"
  by (simp add: getSandboxHosts_def getResolvPath_def)

lemma hosts_ne_devShm [simp]: "getSandboxHosts root \<noteq> devShm"
  by (auto simp: getSandboxHosts_def devShm_def dest: arg_cong [where f = last])

lemma resolv_ne_devShm [simp]: "getResolvPath root \<noteq> devShm"
  by (auto simp: getResolvPath_def devShm_def dest: arg_cong [where f = last])

lemma hosts_ne_resolvConf [simp]: "getSandboxHosts root \<noteq> resolvConfPath"
  by (auto simp: getSandboxHosts_def resolvConfPath_def dest: arg_cong [where f = last])

lemma Sprintf_d_defaultShmSize: "Sprintf_d defaultShmSize = ''67108864''"
  by (simp add: Sprintf_d_def defaultShmSize_def)

lemma shm_mount_flags: "MS_NOEXEC OR MS_NOSUID OR MS_NODEV = (14 :: 64 word)"
  by (simp add: MS_NOEXEC_def MS_NOSUID_def MS_NODEV_def)

lemma CopyFile_frame:
  "CopyFile src dst w = (r, w') \<Longrightarrow>
     environment w' = environment w \<and> sandboxNameIndex w' = sandboxNameIndex w
     \<and> sandboxStore w' = sandboxStore w \<and> netns w' = netns w \<and> cniPods w' = cniPods w
     \<and> containers w' = containers w \<and> tasks w' = tasks w \<and> dirs w' = dirs w
     \<and> mounts w' = mounts w
     \<and> (\<forall>p. p \<noteq> dst \<longrightarrow> files w' p = files w p)
     \<and> compensations w' = compensations w \<and> prefix (trace w) (trace w')"
  by (auto simp: os_defs view_defs Let_def split: if_splits option.splits)

lemma setupSandboxFiles_resolv_frame:
  "setupSandboxFiles_resolv root config w = (r, w') \<Longrightarrow>
     environment w' = environment w \<and> sandboxNameIndex w' = sandboxNameIndex w
     \<and> sandboxStore w' = sandboxStore w \<and> netns w' = netns w \<and> cniPods w' = cniPods w
     \<and> containers w' = containers w \<and> tasks w' = tasks w \<and> dirs w' = dirs w
     \<and> mounts w' = mounts w
     \<and> (\<forall>p. p \<noteq> getResolvPath root \<longrightarrow> files w' p = files w p)
     \<and> compensations w' = compensations w \<and> prefix (trace w) (trace w')"
  by (auto simp: setupSandboxFiles_resolv_def os_defs view_defs Let_def
           split: if_splits option.splits sum.splits)

lemma setupSandboxFiles_shm_frame:
  "setupSandboxFiles_shm root config w = (r, w') \<Longrightarrow>
     environment w' = environment w \<and> sandboxNameIndex w' = sandboxNameIndex w
     \<and> sandboxStore w' = sandboxStore w \<and> netns w' = netns w \<and> cniPods w' = cniPods w
     \<and> containers w' = containers w \<and> tasks w' = tasks w \<and> files w' = files w
     \<and> (dirs w' = dirs w \<or> dirs w' = insert (getSandboxDevShm root) (dirs w))
     \<and> (\<forall>p. p \<noteq> getSandboxDevShm root \<longrightarrow> mounts w' p = mounts w p)
     \<and> (r \<noteq> None \<longrightarrow> mounts w' = mounts w)
     \<and> (HostIpc (NamespaceOptions (SecurityContext (Linux config)))
          \<longrightarrow> mounts w' = mounts w \<and> dirs w' = dirs w)
     \<and> (r = None \<and> \<not> HostIpc (NamespaceOptions (SecurityContext (Linux config)))
          \<longrightarrow> getSandboxDevShm root \<in> dirs w')
     \<and> compensations w' = compensations w \<and> prefix (trace w) (trace w')"
  by (auto simp: setupSandboxFiles_shm_def os_defs view_defs Let_def
           split: if_splits option.splits)

lemma setupSandboxFiles_frame:
  assumes "setupSandboxFiles root config w = (r, w')"
  shows "environment w' = environment w \<and> sandboxNameIndex w' = sandboxNameIndex w
     \<and> sandboxStore w' = sandboxStore w \<and> netns w' = netns w \<and> cniPods w' = cniPods w
     \<and> containers w' = containers w \<and> tasks w' = tasks w
     \<and> (dirs w' = dirs w \<or> dirs w' = insert (getSandboxDevShm root) (dirs w))
     \<and> (\<forall>p. \<not> lies_under root p \<longrightarrow> files w' p = files w p)
     \<and> (\<forall>p. p \<noteq> getSandboxDevShm root \<longrightarrow> mounts w' p = mounts w p)
     \<and> (r \<noteq> None \<longrightarrow> mounts w' = mounts w)
     \<and> (HostIpc (NamespaceOptions (SecurityContext (Linux config)))
          \<longrightarrow> mounts w' = mounts w \<and> dirs w' = dirs w)
     \<and> (r = None \<and> \<not> HostIpc (NamespaceOptions (SecurityContext (Linux config)))
          \<longrightarrow> getSandboxDevShm root \<in> dirs w')
     \<and> compensations w' = compensations w \<and> prefix (trace w) (trace w')"
proof -
  obtain r1 w1 where s1: "CopyFile etcHosts (getSandboxHosts root) w = (r1, w1)"
    by (cases "CopyFile etcHosts (getSandboxHosts root) w")
  note f1 = CopyFile_frame [OF s1]
  have files1: "\<forall>p. \<not> lies_under root p \<longrightarrow> files w1 p = files w p"
    using f1 not_under_ne by blast
  show ?thesis
  proof (cases r1)
    case (Some err)
    with assms s1 have "r = Some HostsFileFailed" "w' = w1"
      by (simp_all add: setupSandboxFiles_def)
    with f1 files1 show ?thesis by simp
  next
    case None
    obtain r2 w2 where s2: "setupSandboxFiles_resolv root config w1 = (r2, w2)"
      by (cases "setupSandboxFiles_resolv root config w1")
    note f2 = setupSandboxFiles_resolv_frame [OF s2]
    have files2: "\<forall>p. \<not> lies_under root p \<longrightarrow> files w2 p = files w p"
      using f2 files1 not_under_ne by metis
    have tr2: "prefix (trace w) (trace w2)"
      using f1 f2 by (blast intro: prefix_order.trans)
    show ?thesis
    proof (cases r2)
      case (Some err)
      with assms s1 s2 None have "r = Some err" "w' = w2"
        by (simp_all add: setupSandboxFiles_def)
      with f1 f2 files2 tr2 show ?thesis by simp
    next
      case r2: None
      with assms s1 s2 None have s3: "setupSandboxFiles_shm root config w2 = (r, w')"
        by (simp add: setupSandboxFiles_def)
      note f3 = setupSandboxFiles_shm_frame [OF s3]
      have files: "\<forall>p. \<not> lies_under root p \<longrightarrow> files w' p = files w p"
        using f3 files2 by simp
      have tr: "prefix (trace w) (trace w')"
        using tr2 f3 by (blast intro: prefix_order.trans)
      from f1 f2 f3 files tr show ?thesis by simp
    qed
  qed
qed

lemmas example_defs =
  example_world_def example_config_def example_service_def pause_image_def example_spec_def
  host_ipc_def host_network_def

lemmas files_defs =
  setupSandboxFiles_def setupSandboxFiles_resolv_def setupSandboxFiles_shm_def
  unmountSandboxFiles_def getSandboxHosts_def getResolvPath_def getSandboxDevShm_def
  etcHosts_def resolvConfPath_def devShm_def IsNotExist_def



text \<open>
  C5: when the DNS configuration of the pod has more than 6 search domains, the setup of
  the sandbox files fails; once the hosts file has been copied the error is that of
  \<open>parseDNSOptions\<close>, an InvalidConfig error; and the resolver file of the sandbox is
  not written. With at most 6 search domains \<open>parseDNSOptions\<close> returns no error and the
  setup does not fail with that error.
\<close>

theorem setupSandboxFiles_rejects_search_overflow:
  assumes "DnsConfig config = Some dnsConfig"
  shows "maxDNSSearches = 6
    \<and> (6 < length (Searches dnsConfig) \<longrightarrow>
         (\<exists>err. fst (setupSandboxFiles rootDir config w) = Some err)
         \<and> (fst (CopyFile etcHosts (getSandboxHosts rootDir) w) = None \<longrightarrow>
              fst (setupSandboxFiles rootDir config w) = Some (ParseDNSFailed DNSSearchesTooMany))
         \<and> files_error_kind (ParseDNSFailed DNSSearchesTooMany) = InvalidConfig
         \<and> files (snd (setupSandboxFiles rootDir config w)) (getResolvPath rootDir)
             = files w (getResolvPath rootDir))
    \<and> (length (Searches dnsConfig) \<le> 6 \<longrightarrow>
         (\<exists>content. parseDNSOptions (Servers dnsConfig) (Searches dnsConfig) (Options dnsConfig)
                      = Inr content)
         \<and> (\<forall>err. fst (setupSandboxFiles rootDir config w) \<noteq> Some (ParseDNSFailed err)))"
proof -
  have over: "6 < length (Searches dnsConfig) \<Longrightarrow>
      parseDNSOptions (Servers dnsConfig) (Searches dnsConfig) (Options dnsConfig)
        = Inl DNSSearchesTooMany"
    by (simp add: parseDNSOptions_def maxDNSSearches_def)
  have within: "length (Searches dnsConfig) \<le> 6 \<Longrightarrow>
      \<exists>content. parseDNSOptions (Servers dnsConfig) (Searches dnsConfig) (Options dnsConfig)
                  = Inr content"
    by (simp add: parseDNSOptions_def maxDNSSearches_def Let_def)
  have resolv_over: "6 < length (Searches dnsConfig) \<Longrightarrow>
      setupSandboxFiles_resolv rootDir config w1 = (Some (ParseDNSFailed DNSSearchesTooMany), w1)"
    for w1
    using assms over by (simp add: setupSandboxFiles_resolv_def)
  have resolv_within: "length (Searches dnsConfig) \<le> 6 \<Longrightarrow>
      fst (setupSandboxFiles_resolv rootDir config w1) \<noteq> Some (ParseDNSFailed err)"
    for w1 err
    using assms within
    by (auto simp: setupSandboxFiles_resolv_def Let_def
             split: prod.splits option.splits if_splits)
  have shm: "fst (setupSandboxFiles_shm rootDir config w2) \<noteq> Some (ParseDNSFailed err)"
    for w2 err
    by (auto simp: setupSandboxFiles_shm_def Let_def split: prod.splits option.splits)
  obtain r1 w1 where s1: "CopyFile etcHosts (getSandboxHosts rootDir) w = (r1, w1)"
    by (cases "CopyFile etcHosts (getSandboxHosts rootDir) w")
  have keep: "files w1 (getResolvPath rootDir) = files w (getResolvPath rootDir)"
    using CopyFile_frame [OF s1] hosts_ne_resolv [of rootDir] by metis
  have a: "6 < length (Searches dnsConfig) \<Longrightarrow>
      (\<exists>err. fst (setupSandboxFiles rootDir config w) = Some err)
      \<and> (r1 = None \<longrightarrow>
           fst (setupSandboxFiles rootDir config w) = Some (ParseDNSFailed DNSSearchesTooMany))
      \<and> files (snd (setupSandboxFiles rootDir config w)) (getResolvPath rootDir)
          = files w (getResolvPath rootDir)"
    using s1 keep resolv_over [of w1]
    by (cases r1) (simp_all add: setupSandboxFiles_def)
  have b: "length (Searches dnsConfig) \<le> 6 \<Longrightarrow>
      fst (setupSandboxFiles rootDir config w) \<noteq> Some (ParseDNSFailed err)" for err
    using s1 resolv_within [of w1 err] shm
    by (cases r1; cases "setupSandboxFiles_resolv rootDir config w1")
       (auto simp: setupSandboxFiles_def split: option.splits)
  from a b within s1 show ?thesis
    by (simp add: maxDNSSearches_def)
qed

theorem setupSandboxFiles_rejects_search_overflow_witness:
  "DnsConfig (example_config\<lparr>DnsConfig := Some seven_searches\<rparr>) = Some seven_searches
   \<and> 6 < length (Searches seven_searches)
   \<and> fst (CopyFile etcHosts (getSandboxHosts ''/r'') example_world) = None
   \<and> fst (setupSandboxFiles ''/r'' (example_config\<lparr>DnsConfig := Some seven_searches\<rparr>)
            example_world)
       = Some (ParseDNSFailed DNSSearchesTooMany)
   \<and> files (snd (setupSandboxFiles ''/r'' (example_config\<lparr>DnsConfig := Some seven_searches\<rparr>)
                   example_world)) (getResolvPath ''/r'') = None
   \<and> DnsConfig (example_config\<lparr>DnsConfig := Some six_searches\<rparr>) = Some six_searches
   \<and> length (Searches six_searches) \<le> 6
   \<and> (\<forall>err. fst (setupSandboxFiles ''/r'' (example_config\<lparr>DnsConfig := Some six_searches\<rparr>)
                  example_world) \<noteq> Some (ParseDNSFailed err))"
proof -
  have h1: "DnsConfig (example_config\<lparr>DnsConfig := Some seven_searches\<rparr>) = Some seven_searches"
    by simp
  have h2: "6 < length (Searches seven_searches)"
    by (simp add: seven_searches_def)
  have h3: "fst (CopyFile etcHosts (getSandboxHosts ''/r'') example_world) = None"
    by (simp add: example_world_def CopyFile_def called_def etcHosts_def Let_def)
  have h4: "files example_world (getResolvPath ''/r'') = None"
    by (simp add: example_world_def getResolvPath_def)
  have h5: "DnsConfig (example_config\<lparr>DnsConfig := Some six_searches\<rparr>) = Some six_searches"
    by simp
  have h6: "length (Searches six_searches) \<le> 6"
    by (simp add: six_searches_def)
  from setupSandboxFiles_rejects_search_overflow [OF h1, of "''/r''" example_world]
       setupSandboxFiles_rejects_search_overflow [OF h5, of "''/r''" example_world]
       h1 h2 h3 h4 h5 h6
  show ?thesis by simp
qed

text \<open>
  C9: for a DNS configuration whose servers, searches and options are all empty,
  \<open>parseDNSOptions\<close> returns the empty string and no error, and the setup of the sandbox
  files does what it does without a DNS configuration: it copies the host's
  \<open>/etc/resolv.conf\<close> to the resolver path of the sandbox and never writes a
  synthesized file there.
\<close>

theorem empty_dns_config_copies_host_resolv_conf:
  "parseDNSOptions [] [] [] = Inr []
   \<and> setupSandboxFiles_resolv rootDir
        (config\<lparr>DnsConfig := Some \<lparr>Servers = [], Searches = [], Options = []\<rparr>\<rparr>) w
       = (case CopyFile resolvConfPath (getResolvPath rootDir) w of
            (Some err, w') \<Rightarrow> (Some CopyResolvFailed, w')
          | (None, w') \<Rightarrow> (None, w'))
   \<and> setupSandboxFiles rootDir
        (config\<lparr>DnsConfig := Some \<lparr>Servers = [], Searches = [], Options = []\<rparr>\<rparr>) w
       = setupSandboxFiles rootDir (config\<lparr>DnsConfig := None\<rparr>) w
   \<and> (fst (setupSandboxFiles rootDir
              (config\<lparr>DnsConfig := Some \<lparr>Servers = [], Searches = [], Options = []\<rparr>\<rparr>) w) = None
        \<longrightarrow> files (snd (setupSandboxFiles rootDir
              (config\<lparr>DnsConfig := Some \<lparr>Servers = [], Searches = [], Options = []\<rparr>\<rparr>) w))
              (getResolvPath rootDir) = files w resolvConfPath
            \<and> CallCopyFile resolvConfPath (getResolvPath rootDir)
                 \<in> set (trace (snd (setupSandboxFiles rootDir
              (config\<lparr>DnsConfig := Some \<lparr>Servers = [], Searches = [], Options = []\<rparr>\<rparr>) w))))
   \<and> (\<forall>content. CallWriteFile (getResolvPath rootDir) content
         \<in> set (trace (snd (setupSandboxFiles rootDir
              (config\<lparr>DnsConfig := Some \<lparr>Servers = [], Searches = [], Options = []\<rparr>\<rparr>) w)))
        \<longrightarrow> CallWriteFile (getResolvPath rootDir) content \<in> set (trace w))"
proof -
  let ?config = "config\<lparr>DnsConfig := Some \<lparr>Servers = [], Searches = [], Options = []\<rparr>\<rparr>"
  have p: "parseDNSOptions [] [] [] = Inr []"
    by (simp add: parseDNSOptions_def maxDNSSearches_def)
  have r: "setupSandboxFiles_resolv rootDir ?config w1
       = (case CopyFile resolvConfPath (getResolvPath rootDir) w1 of
            (Some err, w') \<Rightarrow> (Some CopyResolvFailed, w')
          | (None, w') \<Rightarrow> (None, w'))" for w1
    by (simp add: setupSandboxFiles_resolv_def p)
  have r': "setupSandboxFiles_resolv rootDir ?config w1
       = setupSandboxFiles_resolv rootDir (config\<lparr>DnsConfig := None\<rparr>) w1" for w1
    by (simp add: setupSandboxFiles_resolv_def p)
  have s': "setupSandboxFiles_shm rootDir ?config w1
       = setupSandboxFiles_shm rootDir (config\<lparr>DnsConfig := None\<rparr>) w1" for w1
    by (simp add: setupSandboxFiles_shm_def)
  have s: "setupSandboxFiles rootDir ?config w = setupSandboxFiles rootDir (config\<lparr>DnsConfig := None\<rparr>) w"
    by (simp add: setupSandboxFiles_def r' s' split: prod.splits option.splits)
  have ok: "files (snd (setupSandboxFiles rootDir ?config w)) (getResolvPath rootDir)
               = files w resolvConfPath
      \<and> CallCopyFile resolvConfPath (getResolvPath rootDir)
           \<in> set (trace (snd (setupSandboxFiles rootDir ?config w)))"
    if success: "fst (setupSandboxFiles rootDir ?config w) = None"
  proof -
    obtain r1 w1 where s1: "CopyFile etcHosts (getSandboxHosts rootDir) w = (r1, w1)"
      by (cases "CopyFile etcHosts (getSandboxHosts rootDir) w")
    obtain r2 w2 where s2: "CopyFile resolvConfPath (getResolvPath rootDir) w1 = (r2, w2)"
      by (cases "CopyFile resolvConfPath (getResolvPath rootDir) w1")
    obtain r3 w3 where s3: "setupSandboxFiles_shm rootDir ?config w2 = (r3, w3)"
      by (cases "setupSandboxFiles_shm rootDir ?config w2")
    from success s1 have r1: "r1 = None"
      by (cases r1) (simp_all add: setupSandboxFiles_def)
    from success s1 s2 r1 have r2: "r2 = None"
      by (cases r2) (simp_all add: setupSandboxFiles_def r)
    from s1 s2 s3 r1 r2 have all: "setupSandboxFiles rootDir ?config w = (r3, w3)"
      by (simp add: setupSandboxFiles_def r)
    have "files w1 resolvConfPath = files w resolvConfPath"
      using CopyFile_frame [OF s1] hosts_ne_resolvConf [of rootDir] by metis
    moreover have "files w2 (getResolvPath rootDir) = files w1 resolvConfPath"
      and ev: "CallCopyFile resolvConfPath (getResolvPath rootDir) \<in> set (trace w2)"
      using s2 r2 by (auto simp: os_defs Let_def split: if_splits option.splits)
    moreover have "files w3 = files w2" and "prefix (trace w2) (trace w3)"
      using setupSandboxFiles_shm_frame [OF s3] by simp_all
    ultimately show ?thesis
      using all set_mono_prefix by fastforce
  qed
  have nowrite: "CallWriteFile (getResolvPath rootDir) content \<in> set (trace w)"
    if written: "CallWriteFile (getResolvPath rootDir) content
         \<in> set (trace (snd (setupSandboxFiles rootDir ?config w)))" for content
    using written
    by (auto simp: setupSandboxFiles_def r setupSandboxFiles_shm_def os_defs Let_def
             split: option.splits if_splits prod.splits)
  from p r s ok nowrite show ?thesis by blast
qed

theorem empty_dns_config_copies_host_resolv_conf_witness:
  "fst (setupSandboxFiles ''/r''
          (example_config\<lparr>DnsConfig := Some \<lparr>Servers = [], Searches = [], Options = []\<rparr>\<rparr>)
          example_world) = None
   \<and> files (snd (setupSandboxFiles ''/r''
          (example_config\<lparr>DnsConfig := Some \<lparr>Servers = [], Searches = [], Options = []\<rparr>\<rparr>)
          example_world)) (getResolvPath ''/r'') = Some ''nameserver 192.168.0.1''"
proof -
  have h: "fst (setupSandboxFiles ''/r''
          (example_config\<lparr>DnsConfig := Some \<lparr>Servers = [], Searches = [], Options = []\<rparr>\<rparr>)
          example_world) = None"
    by (simp add: example_defs files_defs os_defs parseDNSOptions_def maxDNSSearches_def Let_def)
  have v: "files example_world resolvConfPath = Some ''nameserver 192.168.0.1''"
    by (simp add: example_world_def resolvConfPath_def)
  from empty_dns_config_copies_host_resolv_conf [of "''/r''" example_config example_world]
  have "fst (setupSandboxFiles ''/r''
          (example_config\<lparr>DnsConfig := Some \<lparr>Servers = [], Searches = [], Options = []\<rparr>\<rparr>)
          example_world) = None
        \<longrightarrow> files (snd (setupSandboxFiles ''/r''
          (example_config\<lparr>DnsConfig := Some \<lparr>Servers = [], Searches = [], Options = []\<rparr>\<rparr>)
          example_world)) (getResolvPath ''/r'') = files example_world resolvConfPath"
    by blast
  with h v show ?thesis by metis
qed

text \<open>
  C8: for a pod that shares the host IPC namespace the setup of the sandbox files
  creates no mount and no directory; its shared memory part only stats the host's
  \<open>/dev/shm\<close> and, when that path does not exist, fails with the error that the host
  path is not available, a FilesystemError, so that the whole setup fails. For a pod
  that does not share host IPC a successful setup has created the shm directory of the
  sandbox and mounted there, and nowhere else, a tmpfs from source "shm" with the flags
  noexec, nosuid and nodev and the data "mode=1777,size=67108864".
\<close>

theorem setupSandboxFiles_shm_follows_host_ipc:
  "(HostIpc (NamespaceOptions (SecurityContext (Linux config))) \<longrightarrow>
      mounts (snd (setupSandboxFiles rootDir config w)) = mounts w
      \<and> dirs (snd (setupSandboxFiles rootDir config w)) = dirs w
      \<and> setupSandboxFiles_shm rootDir config w
          = (case Stat devShm w of
               (Some err, w') \<Rightarrow> (Some HostShmUnavailable, w')
             | (None, w') \<Rightarrow> (None, w'))
      \<and> files_error_kind HostShmUnavailable = FilesystemError
      \<and> (devShm \<notin> dirs w \<and> files w devShm = None \<longrightarrow>
           fst (setupSandboxFiles_shm rootDir config w) = Some HostShmUnavailable
           \<and> fst (setupSandboxFiles rootDir config w) \<noteq> None))
   \<and> (\<not> HostIpc (NamespaceOptions (SecurityContext (Linux config)))
        \<and> fst (setupSandboxFiles rootDir config w) = None \<longrightarrow>
      getSandboxDevShm rootDir \<in> dirs (snd (setupSandboxFiles rootDir config w))
      \<and> mounts (snd (setupSandboxFiles rootDir config w)) (getSandboxDevShm rootDir)
          = Some \<lparr>mSource = ''shm'', mFSType = ''tmpfs'',
                  mFlags = MS_NOEXEC OR MS_NOSUID OR MS_NODEV,
                  mData = ''mode=1777,size=67108864''\<rparr>
      \<and> (\<forall>p. p \<noteq> getSandboxDevShm rootDir \<longrightarrow>
            mounts (snd (setupSandboxFiles rootDir config w)) p = mounts w p)
      \<and> CallStat devShm \<notin> set (trace (snd (setupSandboxFiles rootDir config w))) - set (trace w))"
proof -
  let ?host = "HostIpc (NamespaceOptions (SecurityContext (Linux config)))"
  obtain r w' where run: "setupSandboxFiles rootDir config w = (r, w')"
    by (cases "setupSandboxFiles rootDir config w")
  note frame = setupSandboxFiles_frame [OF run]
  obtain r1 w1 where s1: "CopyFile etcHosts (getSandboxHosts rootDir) w = (r1, w1)"
    by (cases "CopyFile etcHosts (getSandboxHosts rootDir) w")
  obtain r2 w2 where s2: "setupSandboxFiles_resolv rootDir config w1 = (r2, w2)"
    by (cases "setupSandboxFiles_resolv rootDir config w1")
  obtain r3 w3 where s3: "setupSandboxFiles_shm rootDir config w2 = (r3, w3)"
    by (cases "setupSandboxFiles_shm rootDir config w2")
  note f1 = CopyFile_frame [OF s1] and f2 = setupSandboxFiles_resolv_frame [OF s2]
  have host_shm: "setupSandboxFiles_shm rootDir config v
          = (case Stat devShm v of
               (Some err, v') \<Rightarrow> (Some HostShmUnavailable, v')
             | (None, v') \<Rightarrow> (None, v'))" if ?host for v
    using that by (simp add: setupSandboxFiles_shm_def)
  have missing: "fst (setupSandboxFiles_shm rootDir config v) = Some HostShmUnavailable"
    if ?host "devShm \<notin> dirs v" "files v devShm = None" for v
    using that by (simp add: host_shm Stat_def called_def Let_def)
  have fails: "r \<noteq> None" if h: ?host and no: "devShm \<notin> dirs w" "files w devShm = None"
  proof (cases "r1 = None \<and> r2 = None")
    case True
    have "devShm \<notin> dirs w2" "files w2 devShm = None"
      using f1 f2 no hosts_ne_devShm [of rootDir] resolv_ne_devShm [of rootDir]
      by (simp, metis)
    from missing [OF h this] s3 have "r3 = Some HostShmUnavailable"
      by simp
    with run s1 s2 s3 True show ?thesis
      by (auto simp: setupSandboxFiles_def)
  next
    case False
    with run s1 s2 show ?thesis
      by (cases r1; cases r2) (auto simp: setupSandboxFiles_def)
  qed
  have own: "getSandboxDevShm rootDir \<in> dirs w'
      \<and> mounts w' (getSandboxDevShm rootDir)
          = Some \<lparr>mSource = ''shm'', mFSType = ''tmpfs'',
                  mFlags = MS_NOEXEC OR MS_NOSUID OR MS_NODEV,
                  mData = ''mode=1777,size=67108864''\<rparr>
      \<and> CallStat devShm \<notin> set (trace w') - set (trace w)"
    if h: "\<not> ?host" and ok: "r = None"
  proof -
    from run s1 ok have r1: "r1 = None"
      by (cases r1) (simp_all add: setupSandboxFiles_def)
    from run s1 s2 ok r1 have r2: "r2 = None"
      by (cases r2) (simp_all add: setupSandboxFiles_def)
    from run s1 s2 s3 r1 r2 have eq: "r3 = r" "w3 = w'"
      by (simp_all add: setupSandboxFiles_def)
    have t1: "set (trace w1) - set (trace w) \<subseteq> {CallCopyFile etcHosts (getSandboxHosts rootDir)}"
      using s1 by (auto simp: os_defs Let_def split: if_splits option.splits)
    have t2: "set (trace w2) - set (trace w1)
                \<subseteq> {ev. \<exists>src dst. ev = CallCopyFile src dst} \<union> {ev. \<exists>p c. ev = CallWriteFile p c}"
      using s2
      by (auto simp: setupSandboxFiles_resolv_def os_defs Let_def
               split: if_splits option.splits sum.splits)
    have t3: "getSandboxDevShm rootDir \<in> dirs w3
      \<and> mounts w3 (getSandboxDevShm rootDir)
          = Some \<lparr>mSource = ''shm'', mFSType = ''tmpfs'',
                  mFlags = MS_NOEXEC OR MS_NOSUID OR MS_NODEV,
                  mData = ''mode=1777,size=67108864''\<rparr>
      \<and> CallStat devShm \<notin> set (trace w3) - set (trace w2)"
      using s3 h ok eq
      by (auto simp: setupSandboxFiles_shm_def os_defs Let_def Sprintf_d_defaultShmSize
               split: if_splits option.splits)
    from t1 t2 t3 eq show ?thesis by auto
  qed
  from run frame host_shm missing fails own show ?thesis
    by simp
qed

theorem setupSandboxFiles_shm_follows_host_ipc_witness:
  "HostIpc (NamespaceOptions (SecurityContext (Linux (host_ipc example_config))))
   \<and> devShm \<notin> dirs (example_world\<lparr>dirs := {}\<rparr>)
   \<and> files (example_world\<lparr>dirs := {}\<rparr>) devShm = None
   \<and> fst (setupSandboxFiles ''/r'' (host_ipc example_config) (example_world\<lparr>dirs := {}\<rparr>))
       \<noteq> None
   \<and> mounts (snd (setupSandboxFiles ''/r'' (host_ipc example_config) example_world)) = Map.empty
   \<and> \<not> HostIpc (NamespaceOptions (SecurityContext (Linux example_config)))
   \<and> fst (setupSandboxFiles ''/r'' example_config example_world) = None
   \<and> mounts (snd (setupSandboxFiles ''/r'' example_config example_world)) ''/r/shm''
       = Some \<lparr>mSource = ''shm'', mFSType = ''tmpfs'', mFlags = 14,
               mData = ''mode=1777,size=67108864''\<rparr>"
proof -
  have h1: "HostIpc (NamespaceOptions (SecurityContext (Linux (host_ipc example_config))))"
    by (simp add: host_ipc_def)
  have h2: "devShm \<notin> dirs (example_world\<lparr>dirs := {}\<rparr>)
            \<and> files (example_world\<lparr>dirs := {}\<rparr>) devShm = None"
    by (simp add: example_world_def devShm_def)
  have h3: "\<not> HostIpc (NamespaceOptions (SecurityContext (Linux example_config)))"
    by (simp add: example_config_def)
  have h4: "fst (setupSandboxFiles ''/r'' example_config example_world) = None"
    by (simp add: example_defs files_defs os_defs Let_def)
  have h5: "mounts example_world = Map.empty"
    by (simp add: example_world_def)
  from setupSandboxFiles_shm_follows_host_ipc
         [of "host_ipc example_config" "''/r''" "example_world\<lparr>dirs := {}\<rparr>"]
       setupSandboxFiles_shm_follows_host_ipc [of "host_ipc example_config" "''/r''" example_world]
       setupSandboxFiles_shm_follows_host_ipc [of example_config "''/r''" example_world]
       h1 h2 h3 h4 h5
  show ?thesis
    by (simp add: shm_mount_flags getSandboxDevShm_def)
qed

subsection \<open>The steps of RunPodSandbox and their compensations\<close>

lemmas collab_defs =
  Reserve_def ReleaseByName_def store_Add_def ensureImageExists_def NewNetNS_def
  NetNS_Remove_def SetUpPod_def TearDownPod_def NewContainer_def container_Delete_def
  NewTask_def task_Start_def task_Delete_def called_def

lemma RemoveAll_effect:
  "RemoveAll root v = (r, v') \<Longrightarrow>
     environment v' = environment v \<and> sandboxNameIndex v' = sandboxNameIndex v
     \<and> sandboxStore v' = sandboxStore v \<and> netns v' = netns v \<and> cniPods v' = cniPods v
     \<and> containers v' = containers v \<and> tasks v' = tasks v \<and> mounts v' = mounts v
     \<and> trace v' = trace v @ [CallRemoveAll root]
     \<and> (CallRemoveAll root \<notin> failing v \<longrightarrow>
          dirs v' = Set.filter (\<lambda>d. \<not> lies_under root d) (dirs v)
          \<and> files v' = (\<lambda>f. if lies_under root f then None else files v f))"
  by (auto simp: RemoveAll_def called_def view_defs Let_def split: if_splits)

lemma unmountSandboxFiles_effect:
  "unmountSandboxFiles root config v = (r, v') \<Longrightarrow>
     environment v' = environment v \<and> sandboxNameIndex v' = sandboxNameIndex v
     \<and> sandboxStore v' = sandboxStore v \<and> netns v' = netns v \<and> cniPods v' = cniPods v
     \<and> containers v' = containers v \<and> tasks v' = tasks v \<and> dirs v' = dirs v
     \<and> files v' = files v
     \<and> trace v' = trace v @ (if HostIpc (NamespaceOptions (SecurityContext (Linux config)))
                               then [] else [CallUnmount (getSandboxDevShm root)])
     \<and> (HostIpc (NamespaceOptions (SecurityContext (Linux config))) \<longrightarrow> mounts v' = mounts v)
     \<and> (getSandboxDevShm root \<in> dirs v \<and> CallUnmount (getSandboxDevShm root) \<notin> failing v
          \<and> \<not> HostIpc (NamespaceOptions (SecurityContext (Linux config)))
          \<longrightarrow> mounts v' = (mounts v)(getSandboxDevShm root := None))"
  by (auto simp: unmountSandboxFiles_def Unmount_def called_def IsNotExist_def view_defs Let_def
           split: if_splits)

text \<open>The compensating calls that are registered when the error \<open>e\<close> is returned.\<close>

abbreviation registered :: "error \<Rightarrow> event list \<Rightarrow> event list" where
  "registered e evs \<equiv> filter (\<lambda>ev. registered_as ev \<le> defers_registered e) evs"

lemma RunPodSandbox_task_effect:
  assumes "RunPodSandbox_task sid sandbox w = (r, w')"
  shows "environment w' = environment w \<and> sandboxNameIndex w' = sandboxNameIndex w
     \<and> prefix (trace w) (trace w')
     \<and> netns w' = netns w \<and> cniPods w' = cniPods w \<and> containers w' = containers w
     \<and> dirs w' = dirs w \<and> files w' = files w \<and> mounts w' = mounts w
     \<and> (case r of
          Inr v \<Rightarrow> v = sid
            \<and> sandboxStore w' = (sandboxStore w)(sbID sandbox \<mapsto> sandbox\<lparr>sbContainer := Some sid\<rparr>)
            \<and> tasks w' = (tasks w)(sid \<mapsto> TaskRunning)
            \<and> compensations w' = compensations w
        | Inl e \<Rightarrow> sandboxStore w' = sandboxStore w
            \<and> 6 \<le> defers_registered e
            \<and> compensations w' = compensations w @ registered e [CallTaskDelete sid]
            \<and> (CallTaskDelete sid \<notin> failing w \<and> tasks w sid = None \<longrightarrow> tasks w' = tasks w))"
  using assms
  by (auto simp: RunPodSandbox_task_def deferred_def collab_defs view_defs Let_def
                 fun_upd_idem
           split: if_splits)


lemma RemoveAll_restores:
  assumes rm: "RemoveAll root v = (r, v')"
    and ok: "CallRemoveAll root \<notin> failing v"
    and fresh_dirs: "\<forall>d \<in> dirs w. \<not> lies_under root d"
    and fresh_files: "\<forall>f \<in> dom (files w). \<not> lies_under root f"
    and dirs_v: "dirs w \<subseteq> dirs v" "\<forall>d \<in> dirs v. d \<in> dirs w \<or> lies_under root d"
    and files_v: "\<forall>p. \<not> lies_under root p \<longrightarrow> files v p = files w p"
  shows "dirs v' = dirs w \<and> files v' = files w"
proof -
  note e = RemoveAll_effect [OF rm]
  have "dirs v' = dirs w"
    using e ok fresh_dirs dirs_v by auto
  moreover have "files v' f = files w f" for f
    using e ok fresh_files files_v by (cases "lies_under root f") (auto simp: domIff)
  ultimately show ?thesis by auto
qed

lemma RunPodSandbox_files_effect:
  assumes run: "RunPodSandbox_files c sid config sandbox w = (r, w')"
  defines "root \<equiv> getSandboxRootDir (RootDir c) sid"
  defines "hostIpc \<equiv> HostIpc (NamespaceOptions (SecurityContext (Linux config)))"
  shows "environment w' = environment w \<and> sandboxNameIndex w' = sandboxNameIndex w
     \<and> prefix (trace w) (trace w')
     \<and> netns w' = netns w \<and> cniPods w' = cniPods w \<and> containers w' = containers w
     \<and> (case r of
          Inr v \<Rightarrow> v = sid
            \<and> sandboxStore w' = (sandboxStore w)(sbID sandbox \<mapsto> sandbox\<lparr>sbContainer := Some sid\<rparr>)
            \<and> compensations w' = compensations w
        | Inl e \<Rightarrow> sandboxStore w' = sandboxStore w
            \<and> 4 \<le> defers_registered e
            \<and> compensations w' = compensations w
                 @ registered e ([CallTaskDelete sid]
                     @ (if hostIpc then [] else [CallUnmount (getSandboxDevShm root)])
                     @ [CallRemoveAll root])
            \<and> (CallTaskDelete sid \<notin> failing w \<and> CallUnmount (getSandboxDevShm root) \<notin> failing w
                 \<and> CallRemoveAll root \<notin> failing w \<and> tasks w sid = None
                 \<and> (\<forall>d \<in> dirs w. \<not> lies_under root d)
                 \<and> (\<forall>f \<in> dom (files w). \<not> lies_under root f)
                 \<and> (\<forall>m \<in> dom (mounts w). \<not> lies_under root m)
               \<longrightarrow> tasks w' = tasks w \<and> dirs w' = dirs w \<and> files w' = files w
                   \<and> mounts w' = mounts w))"
proof -
  obtain r1 w1 where s1: "MkdirAll root w = (r1, w1)"
    by (cases "MkdirAll root w")
  have f1: "environment w1 = environment w \<and> sandboxNameIndex w1 = sandboxNameIndex w
     \<and> sandboxStore w1 = sandboxStore w \<and> netns w1 = netns w \<and> cniPods w1 = cniPods w
     \<and> containers w1 = containers w \<and> tasks w1 = tasks w \<and> files w1 = files w
     \<and> mounts w1 = mounts w \<and> compensations w1 = compensations w
     \<and> prefix (trace w) (trace w1)
     \<and> (r1 = None \<longrightarrow> dirs w1 = insert root (dirs w)) \<and> (r1 \<noteq> None \<longrightarrow> dirs w1 = dirs w)"
    using s1 by (auto simp: MkdirAll_def called_def view_defs Let_def split: if_splits)
  show ?thesis
  proof (cases r1)
    case (Some err)
    with run s1 have "r = Inl CreateRootDirFailed" "w' = w1"
      by (simp_all add: RunPodSandbox_files_def root_def Let_def)
    with f1 Some show ?thesis by simp
  next
    case r1: None
    obtain r2 w2 where s2: "setupSandboxFiles root config w1 = (r2, w2)"
      by (cases "setupSandboxFiles root config w1")
    note f2 = setupSandboxFiles_frame [OF s2, folded hostIpc_def]
    have tr2: "prefix (trace w) (trace w2)"
      using f1 f2 by (blast intro: prefix_order.trans)
    have env2: "environment w2 = environment w"
      using f1 f2 by simp
    then have failing2: "failing w2 = failing w"
      by (simp add: environment_def)
    have dirs2: "dirs w \<subseteq> dirs w2" "\<forall>d \<in> dirs w2. d \<in> dirs w \<or> lies_under root d"
      using f1 f2 r1 by auto
    have files2: "\<forall>p. \<not> lies_under root p \<longrightarrow> files w2 p = files w p"
      using f1 f2 by simp
    show ?thesis
    proof (cases r2)
      case (Some err)
      obtain r3 w3 where s3: "RemoveAll root w2 = (r3, w3)"
        by (cases "RemoveAll root w2")
      note f3 = RemoveAll_effect [OF s3]
      from run s1 s2 s3 r1 Some have res: "r = Inl (SetupFilesFailed err)" "w' = w3"
        by (simp_all add: RunPodSandbox_files_def root_def Let_def deferred_def)
      have restore: "dirs w3 = dirs w \<and> files w3 = files w"
        if "CallRemoveAll root \<notin> failing w" "\<forall>d \<in> dirs w. \<not> lies_under root d"
           "\<forall>f \<in> dom (files w). \<not> lies_under root f"
        using RemoveAll_restores [OF s3 _ that(2,3) dirs2 files2] that(1) failing2 by simp
      have m: "mounts w3 = mounts w"
        using f1 f2 f3 Some by simp
      have c: "compensations w3 = compensations w @ [CallRemoveAll root]"
        using f1 f2 f3 by (simp add: compensations_def)
      have tr: "prefix (trace w) (trace w3)"
        using tr2 f3 by (auto intro: prefix_order.trans)
      from res f1 f2 f3 restore m c tr show ?thesis
        by (simp add: hostIpc_def)
    next
      case r2: None
      obtain r3 w3 where s3: "RunPodSandbox_task sid sandbox w2 = (r3, w3)"
        by (cases "RunPodSandbox_task sid sandbox w2")
      note f3 = RunPodSandbox_task_effect [OF s3]
      have tr3: "prefix (trace w) (trace w3)"
        using tr2 f3 by (blast intro: prefix_order.trans)
      show ?thesis
      proof (cases r3)
        case (Inr v)
        with run s1 s2 s3 r1 r2 have res: "r = Inr v" "w' = w3"
          by (simp_all add: RunPodSandbox_files_def root_def Let_def deferred_def)
        from res Inr f1 f2 f3 tr3 show ?thesis by simp
      next
        case (Inl e)
        obtain r4 w4 where s4: "unmountSandboxFiles root config w3 = (r4, w4)"
          by (cases "unmountSandboxFiles root config w3")
        obtain r5 w5 where s5: "RemoveAll root w4 = (r5, w5)"
          by (cases "RemoveAll root w4")
        note f4 = unmountSandboxFiles_effect [OF s4, folded hostIpc_def]
          and f5 = RemoveAll_effect [OF s5]
        from run s1 s2 s3 s4 s5 r1 r2 Inl have res: "r = Inl e" "w' = w5"
          by (simp_all add: RunPodSandbox_files_def root_def Let_def deferred_def)
        have env: "environment w5 = environment w"
          using env2 f3 f4 f5 by simp
        have tr: "prefix (trace w) (trace w5)"
          using tr3 f4 f5 by (auto intro: prefix_order.trans)
        have c: "compensations w5 = compensations w
                 @ registered e ([CallTaskDelete sid]
                     @ (if hostIpc then [] else [CallUnmount (getSandboxDevShm root)])
                     @ [CallRemoveAll root])"
          using f1 f2 f3 f4 f5 Inl by (auto simp: compensations_def)
        have restore: "tasks w5 = tasks w \<and> dirs w5 = dirs w \<and> files w5 = files w
                   \<and> mounts w5 = mounts w"
          if ok: "CallTaskDelete sid \<notin> failing w" "CallUnmount (getSandboxDevShm root) \<notin> failing w"
                 "CallRemoveAll root \<notin> failing w" "tasks w sid = None"
            and fd: "\<forall>d \<in> dirs w. \<not> lies_under root d"
            and ff: "\<forall>f \<in> dom (files w). \<not> lies_under root f"
            and fm: "\<forall>m \<in> dom (mounts w). \<not> lies_under root m"
        proof -
          have t: "tasks w5 = tasks w"
            using f1 f2 f3 f4 f5 Inl ok failing2 by simp
          have failing4: "failing w4 = failing w"
            using env2 f3 f4 by (simp add: environment_def)
          have "dirs w4 = dirs w2" "files w4 = files w2"
            using f3 f4 by simp_all
          with dirs2 files2 have d4: "dirs w \<subseteq> dirs w4" "\<forall>d \<in> dirs w4. d \<in> dirs w \<or> lies_under root d"
            and f4': "\<forall>p. \<not> lies_under root p \<longrightarrow> files w4 p = files w p"
            by simp_all
          have df: "dirs w5 = dirs w \<and> files w5 = files w"
            using RemoveAll_restores [OF s5 _ fd ff d4 f4'] ok failing4 by simp
          have shm_free: "mounts w (getSandboxDevShm root) = None"
            using fm lies_under_shm [of root] by (force simp: dom_def)
          have "mounts w4 = mounts w"
          proof (cases hostIpc)
            case True
            with f1 f2 f3 f4 show ?thesis by simp
          next
            case False
            have "getSandboxDevShm root \<in> dirs w3"
              using f2 f3 r2 False by simp
            moreover have "CallUnmount (getSandboxDevShm root) \<notin> failing w3"
              using env2 f3 ok by (simp add: environment_def)
            ultimately have "mounts w4 = (mounts w3)(getSandboxDevShm root := None)"
              using f4 False by simp
            moreover have "mounts w3 p = mounts w p" if "p \<noteq> getSandboxDevShm root" for p
              using f1 f2 f3 that by simp
            ultimately show ?thesis
              using shm_free by (auto simp: fun_eq_iff)
          qed
          then have "mounts w5 = mounts w"
            using f5 by simp
          with t df show ?thesis by simp
        qed
        from res Inl f1 f2 f3 f4 f5 env tr c restore show ?thesis
          by simp
      qed
    qed
  qed
qed

end
